theory Spec2Isabelle
  imports Complex_Main
begin

section \<open>GreenSkies: emission engine and history ledger\<close>

text \<open>
  Shallow embedding of \<^verbatim>\<open>greenskies_final.py\<close>. Python floats are modelled as
  \<^typ>\<open>real\<close> (exact arithmetic: rounding, infinities and NaN are outside the model),
  Python ints as \<^typ>\<open>int\<close>, and text as \<^typ>\<open>string\<close>.
\<close>

subsection \<open>Constants\<close>

definition RF_MULTIPLIER :: real where
  "RF_MULTIPLIER = 19 / 10"

definition OFFSET_COST_PER_KG :: real where
  "OFFSET_COST_PER_KG = 60 / 100"

definition SAF_MAX_REDUCTION_PERCENT :: real where
  "SAF_MAX_REDUCTION_PERCENT = 80 / 100"

definition CO2_TO_FUEL_FACTOR :: real where
  "CO2_TO_FUEL_FACTOR = 316 / 100"

definition FUEL_DENSITY_KG_LITER :: real where
  "FUEL_DENSITY_KG_LITER = 8 / 10"

definition SHORT_HAUL_MAX_KM :: real where
  "SHORT_HAUL_MAX_KM = 1500"

definition SHORT_HAUL_LTO_CO2_FIXED_KG :: real where
  "SHORT_HAUL_LTO_CO2_FIXED_KG = 50"

definition LONG_HAUL_LTO_CO2_FIXED_KG :: real where
  "LONG_HAUL_LTO_CO2_FIXED_KG = 150"

subsection \<open>Pure helpers\<close>

definition estimate_co2 :: "real \<Rightarrow> real \<Rightarrow> bool \<Rightarrow> real" where
  "estimate_co2 distance_km base_factor rf =
     (let fixed = (if distance_km \<le> SHORT_HAUL_MAX_KM
                   then SHORT_HAUL_LTO_CO2_FIXED_KG else LONG_HAUL_LTO_CO2_FIXED_KG);
          total = distance_km * base_factor + fixed
      in if rf then total * RF_MULTIPLIER else total)"

definition fuel_liters_from_co2 :: "real \<Rightarrow> real" where
  "fuel_liters_from_co2 co2_kg =
     (let fuel_kg = co2_kg / CO2_TO_FUEL_FACTOR in fuel_kg / FUEL_DENSITY_KG_LITER)"

definition trees_needed :: "real \<Rightarrow> real" where
  "trees_needed co2 = co2 / 22"

subsection \<open>Exceptions\<close>

datatype py_error =
  ValueError | KeyError | TypeError | FileNotFoundError | UnicodeDecodeError | CsvError

subsection \<open>Great-circle distance\<close>

text \<open>\<^verbatim>\<open>math.radians\<close>, \<^verbatim>\<open>math.sqrt\<close> (which raises on a negative argument) and
  \<^verbatim>\<open>math.atan2\<close> (the angle of the point \<open>(x, y)\<close>, in \<open>(-\<pi>, \<pi>]\<close>, and 0 at the origin).\<close>

definition radians :: "real \<Rightarrow> real" where
  "radians x = x * pi / 180"

definition math_sqrt :: "real \<Rightarrow> py_error + real" where
  "math_sqrt x = (if x < 0 then Inl ValueError else Inr (sqrt x))"

definition atan2 :: "real \<Rightarrow> real \<Rightarrow> real" where
  "atan2 y x =
     (if 0 < x then arctan (y / x)
      else if x < 0 then (if 0 \<le> y then arctan (y / x) + pi else arctan (y / x) - pi)
      else if 0 < y then pi / 2
      else if y < 0 then - (pi / 2)
      else 0)"

definition haversine_a :: "real \<Rightarrow> real \<Rightarrow> real \<Rightarrow> real \<Rightarrow> real" where
  \<comment> \<open>the local \<^verbatim>\<open>a\<close> of \<^verbatim>\<open>haversine_km\<close>\<close>
  "haversine_a lat1 lon1 lat2 lon2 =
     (let phi1 = radians lat1; phi2 = radians lat2;
          dphi = radians (lat2 - lat1); dlambda = radians (lon2 - lon1)
      in (sin (dphi / 2))\<^sup>2 + cos phi1 * cos phi2 * (sin (dlambda / 2))\<^sup>2)"

definition haversine_km :: "real \<Rightarrow> real \<Rightarrow> real \<Rightarrow> real \<Rightarrow> py_error + real" where
  "haversine_km lat1 lon1 lat2 lon2 =
     (let R = 6371;
          a = haversine_a lat1 lon1 lat2 lon2
      in case math_sqrt a of
           Inl e \<Rightarrow> Inl e
         | Inr sa \<Rightarrow>
             (case math_sqrt (1 - a) of
                Inl e \<Rightarrow> Inl e
              | Inr sb \<Rightarrow> (let c = 2 * atan2 sa sb in Inr (R * c))))"

subsection \<open>The emission figure of a calculation\<close>

definition action_co2 :: "real \<Rightarrow> real \<Rightarrow> bool \<Rightarrow> int \<Rightarrow> real" where
  \<comment> \<open>\<^verbatim>\<open>calculate_action\<close>, lines 798 to 802: the estimate, then the SAF reduction\<close>
  "action_co2 dist_km base_factor rf saf_pct =
     (let co2 = estimate_co2 dist_km base_factor rf
      in if saf_pct > 0
         then (let reduction = real_of_int saf_pct / 100 * SAF_MAX_REDUCTION_PERCENT
               in co2 * (1 - reduction))
         else co2)"

subsection \<open>Text\<close>

text \<open>
  Text is held as UTF-8 in \<^typ>\<open>string\<close>. \<^verbatim>\<open>str.strip\<close> and \<^verbatim>\<open>str.upper\<close> are modelled on
  ASCII: the white space removed is the ASCII white space, and only the letters a to z are
  changed by \<open>py_upper\<close>.
\<close>

definition py_isspace :: "char \<Rightarrow> bool" where
  "py_isspace c = ((of_char c :: nat) \<in> {9, 10, 11, 12, 13, 28, 29, 30, 31, 32})"

definition py_strip :: "string \<Rightarrow> string" where
  "py_strip s = rev (dropWhile py_isspace (rev (dropWhile py_isspace s)))"

definition py_upper :: "string \<Rightarrow> string" where
  "py_upper s =
     map (\<lambda>c. let n = (of_char c :: nat) in if 97 \<le> n \<and> n \<le> 122 then char_of (n - 32) else c) s"

fun starts_with :: "string \<Rightarrow> string \<Rightarrow> bool" where
  "starts_with [] text = True"
| "starts_with (p # ps) [] = False"
| "starts_with (p # ps) (c # cs) = (p = c \<and> starts_with ps cs)"

fun contains :: "string \<Rightarrow> string \<Rightarrow> bool" where
  \<comment> \<open>\<^verbatim>\<open>sep in text\<close>\<close>
  "contains sep [] = starts_with sep []"
| "contains sep (c # cs) = (starts_with sep (c # cs) \<or> contains sep cs)"

fun split_first :: "string \<Rightarrow> string \<Rightarrow> string" where
  \<comment> \<open>\<^verbatim>\<open>text.split(sep)[0]\<close>, for a non-empty separator\<close>
  "split_first sep [] = []"
| "split_first sep (c # cs) = (if starts_with sep (c # cs) then [] else c # split_first sep cs)"

definition EN_DASH :: string where
  "EN_DASH = [CHR 0xE2, CHR 0x80, CHR 0x93]"

definition parse_iata_from_combo :: "string \<Rightarrow> string" where
  "parse_iata_from_combo text =
     (if text = [] then []
      else if contains EN_DASH text then py_upper (py_strip (split_first EN_DASH text))
      else py_upper (py_strip text))"

subsection \<open>Rendering numbers\<close>

function str_nat :: "nat \<Rightarrow> string" where
  "str_nat n = (if n < 10 then [char_of (48 + n)] else str_nat (n div 10) @ [char_of (48 + n mod 10)])"
  by pat_completeness auto
termination
  by (relation "measure (\<lambda>n. n)") auto

declare str_nat.simps [simp del]

definition str_int :: "int \<Rightarrow> string" where
  \<comment> \<open>\<^verbatim>\<open>f"{n}"\<close> of an int\<close>
  "str_int i = (if i < 0 then CHR ''-'' # str_nat (nat (- i)) else str_nat (nat i))"

definition round_half_even :: "real \<Rightarrow> int" where
  "round_half_even y =
     (let f = \<lfloor>y\<rfloor>; r = y - of_int f
      in if r < 1 / 2 then f else if 1 / 2 < r then f + 1 else if even f then f else f + 1)"

definition fmt_1f :: "real \<Rightarrow> string" where
  \<comment> \<open>\<^verbatim>\<open>f"{x:.1f}"\<close>: one decimal place, ties to even\<close>
  "fmt_1f x =
     (let n = nat (round_half_even (\<bar>x\<bar> * 10))
      in (if x < 0 then ''-'' else []) @ str_nat (n div 10) @ ''.'' @ str_nat (n mod 10))"

subsection \<open>CSV rows\<close>

text \<open>
  The \<^verbatim>\<open>csv\<close> module is taken at the level of records: a file written through
  \<^verbatim>\<open>csv.writer\<close> is a list of records (lists of text fields), and \<^verbatim>\<open>csv.reader\<close> on that
  file yields the same records. A cell of a \<^verbatim>\<open>DictReader\<close> row is \<open>None\<close> where the record
  was shorter than the header (\<^verbatim>\<open>restval\<close>); fields beyond the header go under the key
  \<^verbatim>\<open>None\<close>, which no code here reads, and are left out.
\<close>

type_synonym cell = "string option"
type_synonym csv_row = "string \<rightharpoonup> cell"

definition dict_row :: "string list \<Rightarrow> string list \<Rightarrow> csv_row" where
  \<comment> \<open>\<^verbatim>\<open>dict(zip(fieldnames, row))\<close>, then \<^verbatim>\<open>restval\<close> for the field names without a value\<close>
  "dict_row fieldnames r =
     (Map.empty(fieldnames [\<mapsto>] map Some r))
       (drop (length r) fieldnames [\<mapsto>] replicate (length fieldnames - length r) None)"

definition DictReader :: "string list list \<Rightarrow> csv_row list" where
  \<comment> \<open>the first record is the header; empty records are skipped\<close>
  "DictReader recs =
     (case recs of
        [] \<Rightarrow> []
      | fieldnames # rest \<Rightarrow> map (dict_row fieldnames) (filter (\<lambda>r. r \<noteq> []) rest))"

datatype field = Str string | Bool bool

fun csv_str :: "field \<Rightarrow> string" where
  \<comment> \<open>what \<^verbatim>\<open>csv.writer\<close> writes for a value: a string as it is, otherwise its \<^verbatim>\<open>str()\<close>\<close>
  "csv_str (Str s) = s"
| "csv_str (Bool b) = (if b then ''True'' else ''False'')"

subsection \<open>Reference data\<close>

text \<open>
  \<^verbatim>\<open>float()\<close> is a parameter \<open>flt\<close> of every function that calls it: \<open>flt s = None\<close> when
  \<^verbatim>\<open>float(s)\<close> raises \<^verbatim>\<open>ValueError\<close>. A source file is \<open>None\<close> when it does not exist;
  otherwise it is the records the reader yields and, when reading does not come to the end
  of the file, the exception the reader raises after them (bytes that are not UTF-8, a field
  over the limit of the \<^verbatim>\<open>csv\<close> module).
\<close>

type_synonym csv_source = "(string list list \<times> py_error option) option"

definition factor_row :: "(string \<Rightarrow> real option) \<Rightarrow> (cell \<rightharpoonup> real) \<Rightarrow> csv_row \<Rightarrow> (cell \<rightharpoonup> real)" where
  \<comment> \<open>the body of the loop of \<^verbatim>\<open>load_csv_factors\<close>: any exception skips the row\<close>
  "factor_row flt d row =
     (case row ''EmissionFactor_kgCO2perkm'' of
        None \<Rightarrow> d
      | Some None \<Rightarrow> d
      | Some (Some s) \<Rightarrow>
          (case flt s of
             None \<Rightarrow> d
           | Some x \<Rightarrow>
               (case row ''AircraftType'' of
                  None \<Rightarrow> d
                | Some k \<Rightarrow> d(k \<mapsto> x))))"

definition load_csv_factors ::
  "(string \<Rightarrow> real option) \<Rightarrow> csv_source \<Rightarrow> py_error + (cell \<rightharpoonup> real)" where
  \<comment> \<open>the loop over the reader is outside the \<^verbatim>\<open>try\<close>: an exception of the reader ends the
      load, whatever was stored before\<close>
  "load_csv_factors flt source =
     (case source of
        None \<Rightarrow> Inl FileNotFoundError
      | Some (recs, err) \<Rightarrow>
          (case err of
             Some e \<Rightarrow> Inl e
           | None \<Rightarrow> Inr (foldl (factor_row flt) Map.empty (DictReader recs))))"

record airport =
  ap_name :: cell
  ap_lat :: real
  ap_lon :: real
  ap_country :: cell

subsection \<open>History ledger\<close>

definition header :: "string list" where
  "header = [''timestamp'', ''origin'', ''destination'', ''distance_km'', ''aircraft'', ''rf'',
             ''saf_pct'', ''co2_kg'', ''fuel_liters'', ''trees'', ''offset_inr'']"

definition log_history_row :: "field list \<Rightarrow> string list list option \<Rightarrow> string list list option" where
  \<comment> \<open>the file at \<^verbatim>\<open>HISTORY_CSV\<close> before and after; \<open>None\<close> when it does not exist\<close>
  "log_history_row row file =
     (let exists = (file \<noteq> None);
          f = (case file of None \<Rightarrow> [] | Some recs \<Rightarrow> recs);
          f = (if \<not> exists then f @ [header] else f)
      in Some (f @ [map csv_str row]))"

subsection \<open>The application\<close>

type_synonym tree_row = "cell \<times> string \<times> real \<times> cell \<times> real"

record labels =
  lbl_distance :: real
  lbl_co2 :: real
  lbl_fuel :: real
  lbl_trees :: real
  lbl_cost :: real

record app =
  origin_var :: string
  dest_var :: string
  dist_var :: string
  ac_cb :: string
  rf_var :: bool
  saf_var :: int
  factors :: "cell \<rightharpoonup> real"
  airports :: "string \<rightharpoonup> airport"
  result_labels :: "labels option"
  suggestion_lbl :: string
  history_tree :: "tree_row list option"
  history_csv :: "string list list option"

datatype outcome = Completed | Modal string | Raised py_error

definition fstr :: "cell \<Rightarrow> string" where
  \<comment> \<open>a cell inside an f-string\<close>
  "fstr c = (case c of None \<Rightarrow> ''None'' | Some s \<Rightarrow> s)"

definition py_float_cell :: "(string \<Rightarrow> real option) \<Rightarrow> csv_row \<Rightarrow> string \<Rightarrow> py_error + real" where
  \<comment> \<open>\<^verbatim>\<open>float(row[key])\<close>\<close>
  "py_float_cell flt row key =
     (case row key of
        None \<Rightarrow> Inl KeyError
      | Some None \<Rightarrow> Inl TypeError
      | Some (Some s) \<Rightarrow> (case flt s of None \<Rightarrow> Inl ValueError | Some x \<Rightarrow> Inr x))"

definition tree_values :: "(string \<Rightarrow> real option) \<Rightarrow> csv_row \<Rightarrow> py_error + tree_row" where
  "tree_values flt row =
     (case row ''origin'' of None \<Rightarrow> Inl KeyError | Some origin \<Rightarrow>
      case row ''destination'' of None \<Rightarrow> Inl KeyError | Some destination \<Rightarrow>
      let route = fstr origin @ [CHR '' '', CHR 0xE2, CHR 0x86, CHR 0x92, CHR '' ''] @ fstr destination in
      case row ''timestamp'' of None \<Rightarrow> Inl KeyError | Some timestamp \<Rightarrow>
      case py_float_cell flt row ''distance_km'' of Inl e \<Rightarrow> Inl e | Inr distance_km \<Rightarrow>
      case row ''aircraft'' of None \<Rightarrow> Inl KeyError | Some aircraft \<Rightarrow>
      case py_float_cell flt row ''co2_kg'' of Inl e \<Rightarrow> Inl e | Inr co2_kg \<Rightarrow>
      Inr (timestamp, route, distance_km, aircraft, co2_kg))"

fun insert_rows ::
  "(string \<Rightarrow> real option) \<Rightarrow> csv_row list \<Rightarrow> tree_row list \<Rightarrow> py_error option \<times> tree_row list" where
  "insert_rows flt [] tree = (None, tree)"
| "insert_rows flt (row # rows) tree =
     (case tree_values flt row of
        Inl e \<Rightarrow> (Some e, tree)
      | Inr v \<Rightarrow> insert_rows flt rows (tree @ [v]))"

definition refresh_history_tree :: "(string \<Rightarrow> real option) \<Rightarrow> app \<Rightarrow> outcome \<times> app" where
  "refresh_history_tree flt st =
     (case history_tree st of
        None \<Rightarrow> (Completed, st)
      | Some old \<Rightarrow>
          (case history_csv st of
             None \<Rightarrow> (Completed, st\<lparr>history_tree := Some []\<rparr>)
           | Some recs \<Rightarrow>
               (case insert_rows flt (DictReader recs) [] of
                  (None, tree) \<Rightarrow> (Completed, st\<lparr>history_tree := Some tree\<rparr>)
                | (Some e, tree) \<Rightarrow> (Raised e, st\<lparr>history_tree := Some tree\<rparr>))))"

definition history_rows :: "string list list option \<Rightarrow> csv_row list" where
  \<comment> \<open>the rows \<^verbatim>\<open>_refresh_history_tree\<close> iterates over (lines 925 to 930): none when the file
      does not exist\<close>
  "history_rows file = (case file of None \<Rightarrow> [] | Some recs \<Rightarrow> DictReader recs)"

definition route_distance ::
  "(string \<Rightarrow> real option) \<Rightarrow> (string \<rightharpoonup> airport) \<Rightarrow> string \<Rightarrow> string \<Rightarrow> string \<Rightarrow> outcome + real" where
  \<comment> \<open>\<^verbatim>\<open>calculate_action\<close>, lines 770 to 786: the distance, or the way the action ends\<close>
  "route_distance flt aps origin dest manual =
     (if origin \<noteq> [] \<and> dest \<noteq> [] then
        (if aps origin = None \<or> aps dest = None then Inl (Modal ''Airport Not Found'')
         else (let a = the (aps origin); b = the (aps dest)
               in case haversine_km (ap_lat a) (ap_lon a) (ap_lat b) (ap_lon b) of
                    Inl e \<Rightarrow> Inl (Raised e)
                  | Inr d \<Rightarrow> Inr d))
      else (case flt manual of
              None \<Rightarrow> Inl (Modal ''Input Required'')
            | Some d \<Rightarrow> Inr d))"

definition suggestion :: "real \<Rightarrow> string" where
  "suggestion dist_km =
     (if dist_km < 350 then ''Short route detected. Consider train or bus alternatives for lower emissions.''
      else if dist_km < 1500 then ''Medium-haul flight. Choose direct flights and fuel-efficient aircraft when possible.''
      else ''Long-haul flight. Consider carbon offsets and airlines with SAF programs.'')"

definition history_entry ::
  "string \<Rightarrow> string \<Rightarrow> string \<Rightarrow> real \<Rightarrow> string \<Rightarrow> bool \<Rightarrow> int \<Rightarrow> real \<Rightarrow> field list" where
  \<comment> \<open>\<^verbatim>\<open>calculate_action\<close>, lines 827 and 828\<close>
  "history_entry ts origin dest dist_km ac rf saf_pct co2 =
     [Str ts, Str origin, Str dest, Str (fmt_1f dist_km), Str ac, Bool rf, Str (str_int saf_pct),
      Str (fmt_1f co2), Str (fmt_1f (fuel_liters_from_co2 co2)), Str (fmt_1f (trees_needed co2)),
      Str (fmt_1f (co2 * OFFSET_COST_PER_KG))]"

definition calculate_action :: "(string \<Rightarrow> real option) \<Rightarrow> string \<Rightarrow> app \<Rightarrow> outcome \<times> app" where
  \<comment> \<open>\<open>ts\<close> is the clock reading \<^verbatim>\<open>datetime.now(UTC).isoformat()\<close>; the labels hold the
      numbers shown, not their rendering\<close>
  "calculate_action flt ts st =
     (let origin = parse_iata_from_combo (origin_var st);
          dest = parse_iata_from_combo (dest_var st);
          manual = py_strip (dist_var st)
      in case route_distance flt (airports st) origin dest manual of
           Inl ending \<Rightarrow> (ending, st)
         | Inr dist_km \<Rightarrow>
             (let ac = ac_cb st
              in case factors st (Some ac) of
                   None \<Rightarrow> (Modal ''Aircraft Required'', st)
                 | Some base_factor \<Rightarrow>
                     (let rf = rf_var st;
                          saf_pct = saf_var st;
                          co2 = action_co2 dist_km base_factor rf saf_pct;
                          fuel_l = fuel_liters_from_co2 co2;
                          trees = trees_needed co2;
                          cost = co2 * OFFSET_COST_PER_KG;
                          entry = history_entry ts origin dest dist_km ac rf saf_pct co2
                      in refresh_history_tree flt
                           (st\<lparr>result_labels :=
                                  Some \<lparr>lbl_distance = dist_km, lbl_co2 = co2, lbl_fuel = fuel_l,
                                        lbl_trees = trees, lbl_cost = cost\<rparr>,
                               suggestion_lbl := suggestion dist_km,
                               history_csv := log_history_row entry (history_csv st)\<rparr>))))"

subsection \<open>Exporting the ledger\<close>

text \<open>
  The bytes of the ledger file are the rendering of its records by \<^verbatim>\<open>csv.writer\<close> (excel
  dialect, minimal quoting, CR LF after every record). Decoding and encoding UTF-8 do not
  change them. Paths are compared as written.
\<close>

definition CR :: char where
  "CR = CHR 0x0D"

definition LF :: char where
  "LF = CHR 0x0A"

definition csv_field :: "string \<Rightarrow> string" where
  \<comment> \<open>a field as \<^verbatim>\<open>csv.writer\<close> renders it: quoted when it holds a comma, a quote or a line
      break, quotes doubled\<close>
  "csv_field s =
     (if list_ex (\<lambda>c. c = CHR '','' \<or> c = CHR 0x22 \<or> c = CR \<or> c = LF) s
      then [CHR 0x22] @ concat (map (\<lambda>c. if c = CHR 0x22 then [c, c] else [c]) s) @ [CHR 0x22]
      else s)"

fun join_comma :: "string list \<Rightarrow> string" where
  "join_comma [] = []"
| "join_comma [s] = s"
| "join_comma (s # t # ss) = s @ [CHR '',''] @ join_comma (t # ss)"

definition csv_writerow :: "string list \<Rightarrow> string" where
  \<comment> \<open>one record with its line terminator; a lone empty field is written quoted\<close>
  "csv_writerow flds =
     (if flds = [[]] then [CHR 0x22, CHR 0x22] else join_comma (map csv_field flds)) @ [CR, LF]"

definition csv_bytes :: "string list list \<Rightarrow> string" where
  \<comment> \<open>the content of a file written record by record with \<^verbatim>\<open>newline=''\<close>\<close>
  "csv_bytes recs = concat (map csv_writerow recs)"

fun read_text :: "string \<Rightarrow> string" where
  \<comment> \<open>reading in text mode with the default \<^verbatim>\<open>newline=None\<close>: every line end becomes LF\<close>
  "read_text [] = []"
| "read_text [c] = [if c = CR then LF else c]"
| "read_text (c # d # cs) =
     (if c = CR then (if d = LF then LF # read_text cs else LF # read_text (d # cs))
      else c # read_text (d # cs))"

definition write_text :: "string \<Rightarrow> string \<Rightarrow> string" where
  \<comment> \<open>writing in text mode with the default \<^verbatim>\<open>newline=None\<close>: every LF becomes \<^verbatim>\<open>os.linesep\<close>\<close>
  "write_text linesep s = concat (map (\<lambda>c. if c = LF then linesep else [c]) s)"

definition HISTORY_CSV :: string where
  "HISTORY_CSV = ''history.csv''"

definition export_history ::
  "string \<Rightarrow> string \<Rightarrow> (string \<rightharpoonup> string) \<Rightarrow> app \<Rightarrow> outcome \<times> (string \<rightharpoonup> string) \<times> app" where
  \<comment> \<open>\<open>linesep\<close> is \<^verbatim>\<open>os.linesep\<close>, \<open>target\<close> the answer of the file dialog (empty when it was
      cancelled), \<open>files\<close> the content of the other files by path. Opening the target for
      writing empties it before the source is read.\<close>
  "export_history linesep target files st =
     (case history_csv st of
        None \<Rightarrow> (Modal ''No History'', files, st)
      | Some recs \<Rightarrow>
          if target = [] then (Completed, files, st)
          else if target = HISTORY_CSV
          then (Modal ''Export Successful'', files, st\<lparr>history_csv := Some []\<rparr>)
          else (Modal ''Export Successful'',
                files(target \<mapsto> write_text linesep (read_text (csv_bytes recs))), st))"

definition plain :: "string \<Rightarrow> bool" where
  \<comment> \<open>no line break inside the field\<close>
  "plain s = (CR \<notin> set s \<and> LF \<notin> set s)"

subsection \<open>Concrete inputs\<close>

text \<open>
  \<open>float_dec\<close> is \<^verbatim>\<open>float()\<close> on plain decimal literals (optional sign, digits, optional
  fraction, surrounding white space); it stands for \<open>flt\<close> where a theorem is evaluated
  at a concrete input.
\<close>

fun digits_value :: "nat \<Rightarrow> string \<Rightarrow> nat option" where
  "digits_value acc [] = Some acc"
| "digits_value acc (c # cs) =
     (let n = (of_char c :: nat)
      in if 48 \<le> n \<and> n \<le> 57 then digits_value (10 * acc + (n - 48)) cs else None)"

definition float_dec_unsigned :: "string \<Rightarrow> real option" where
  "float_dec_unsigned s =
     (let ip = takeWhile (\<lambda>c. c \<noteq> CHR ''.'') s;
          fp = drop 1 (dropWhile (\<lambda>c. c \<noteq> CHR ''.'') s)
      in if ip = [] \<and> fp = [] then None
         else (case (digits_value 0 ip, digits_value 0 fp) of
                 (Some i, Some f) \<Rightarrow> Some (real i + real f / 10 ^ length fp)
               | _ \<Rightarrow> None))"

definition float_dec :: "string \<Rightarrow> real option" where
  "float_dec s =
     (case py_strip s of
        [] \<Rightarrow> None
      | c # cs \<Rightarrow>
          if c = CHR ''-'' then map_option uminus (float_dec_unsigned cs)
          else if c = CHR ''+'' then float_dec_unsigned cs
          else float_dec_unsigned (c # cs))"

definition DEL :: airport where
  "DEL = \<lparr>ap_name = Some ''Delhi'', ap_lat = 2856 / 100, ap_lon = 7710 / 100, ap_country = Some ''India''\<rparr>"

definition BOM :: airport where
  "BOM = \<lparr>ap_name = Some ''Mumbai'', ap_lat = 1909 / 100, ap_lon = 7287 / 100, ap_country = Some ''India''\<rparr>"

definition app0 :: app where
  \<comment> \<open>the application after start-up: one aircraft, two airports, no history file and an
      empty history view\<close>
  "app0 =
     \<lparr>origin_var = [], dest_var = [], dist_var = [], ac_cb = ''A320'', rf_var = False, saf_var = 0,
      factors = [Some ''A320'' \<mapsto> 115 / 1000], airports = [''DEL'' \<mapsto> DEL, ''BOM'' \<mapsto> BOM],
      result_labels = None, suggestion_lbl = [], history_tree = Some [], history_csv = None\<rparr>"

definition factor_parses :: "(string \<Rightarrow> real option) \<Rightarrow> csv_row \<Rightarrow> bool" where
  \<comment> \<open>the factor cell of the row is text that \<^verbatim>\<open>float()\<close> accepts\<close>
  "factor_parses flt row =
     (case row ''EmissionFactor_kgCO2perkm'' of
        Some (Some s) \<Rightarrow> flt s \<noteq> None
      | _ \<Rightarrow> False)"

definition parsed_factors :: "(string \<Rightarrow> real option) \<Rightarrow> cell \<Rightarrow> csv_row list \<Rightarrow> real list" where
  \<comment> \<open>what \<^verbatim>\<open>float()\<close> gives for the factor cells of the rows of aircraft type \<open>k\<close>, in the order
      of the file; rows without a factor cell that \<^verbatim>\<open>float()\<close> accepts give nothing\<close>
  "parsed_factors flt k rows =
     List.map_filter
       (\<lambda>row. case row ''EmissionFactor_kgCO2perkm'' of
                 Some (Some s) \<Rightarrow>
                   (case flt s of
                      Some x \<Rightarrow> if row ''AircraftType'' = Some k then Some x else None
                    | None \<Rightarrow> None)
               | _ \<Rightarrow> None)
       rows"

definition factor_recs :: "string list list" where
  "factor_recs =
     [[''AircraftType'', ''EmissionFactor_kgCO2perkm''],
      [''A320'', ''0.115''],
      [''B747'', ''n/a''],
      [''X1'', ''-1''],
      [''A320'', ''0.12'']]"

definition entry1 :: "field list" where
  "entry1 = [Str ''2026-01-05T09:30:00+00:00'', Str ''DEL'', Str ''BOM'', Str ''1000.0'', Str ''A320'',
             Bool False, Str ''0'', Str ''165.0'', Str ''65.3'', Str ''7.5'', Str ''99.0'']"

definition entry2 :: "field list" where
  "entry2 = [Str ''2026-01-06T18:00:00+00:00'', Str [], Str [], Str ''2000.0'', Str ''A320'',
             Bool True, Str ''50'', Str ''433.2'', Str ''171.4'', Str ''19.7'', Str ''259.9'']"

section \<open>Properties\<close>

subsection \<open>Rules for evaluating concrete inputs\<close>

lemmas text_eval = parse_iata_from_combo_def EN_DASH_def py_upper_def py_strip_def py_isspace_def
  char_of_def bit_Suc_0_iff float_dec_def float_dec_unsigned_def
  fmt_1f_def round_half_even_def str_nat.simps str_int_def

lemmas co2_eval = action_co2_def estimate_co2_def SHORT_HAUL_MAX_KM_def RF_MULTIPLIER_def
  SHORT_HAUL_LTO_CO2_FIXED_KG_def LONG_HAUL_LTO_CO2_FIXED_KG_def SAF_MAX_REDUCTION_PERCENT_def
  fuel_liters_from_co2_def trees_needed_def OFFSET_COST_PER_KG_def CO2_TO_FUEL_FACTOR_def
  FUEL_DENSITY_KG_LITER_def

subsection \<open>Emission estimate\<close>

text \<open>
  C1. The estimate is \<open>distance_km * base_factor\<close> plus the landing/take-off surcharge,
  which is 50 kg up to and including 1500 km and 150 kg above; with radiative forcing the
  whole sum, surcharge included, is multiplied by 1.9. At exactly 1500 km the surcharge is
  50 kg, at 1500.001 km it is 150 kg.
\<close>

theorem estimate_co2_formula:
  "estimate_co2 d f False = d * f + (if d \<le> 1500 then 50 else 150)
   \<and> estimate_co2 d f True = (d * f + (if d \<le> 1500 then 50 else 150)) * (19 / 10)
   \<and> estimate_co2 1500 f False = 1500 * f + 50
   \<and> estimate_co2 (1500001 / 1000) f False = (1500001 / 1000) * f + 150"
  by (simp add: estimate_co2_def Let_def SHORT_HAUL_MAX_KM_def RF_MULTIPLIER_def
      SHORT_HAUL_LTO_CO2_FIXED_KG_def LONG_HAUL_LTO_CO2_FIXED_KG_def)

subsection \<open>Great-circle distance\<close>

lemma sin_half_sq: "(sin (t / 2))\<^sup>2 = (1 - cos t) / (2::real)"
proof -
  have "cos t = cos (2 * (t / 2))" by simp
  also have "\<dots> = 1 - 2 * (sin (t / 2))\<^sup>2" by (rule cos_double_sin)
  finally show ?thesis by simp
qed

lemma hav_a_sym: "haversine_a lat2 lon2 lat1 lon1 = haversine_a lat1 lon1 lat2 lon2"
proof -
  have s: "(sin (radians (x - y) / 2))\<^sup>2 = (sin (radians (y - x) / 2))\<^sup>2" for x y :: real
  proof -
    have "radians (x - y) = - radians (y - x)" by (simp add: radians_def field_simps)
    then show ?thesis by (simp add: sin_half_sq)
  qed
  show ?thesis unfolding haversine_a_def Let_def
    by (simp add: s [of lat1 lat2] s [of lon1 lon2] mult.commute)
qed

lemma hav_a_alt: "haversine_a lat1 lon1 lat2 lon2 =
  (1 - (sin (radians lat1) * sin (radians lat2) + cos (radians lat1) * cos (radians lat2) * cos (radians (lon2 - lon1)))) / 2"
proof -
  have d: "radians (lat2 - lat1) = radians lat2 - radians lat1" by (simp add: radians_def field_simps)
  show ?thesis unfolding haversine_a_def Let_def sin_half_sq d cos_diff
    by (simp add: field_simps)
qed

lemma cs_bound: "\<bar>sin p * sin q + cos p * cos q * c\<bar> \<le> (1::real)" if "\<bar>c\<bar> \<le> 1"
proof -
  have 1: "\<bar>sin p * sin q + cos p * cos q * c\<bar> \<le> \<bar>sin p * sin q\<bar> + \<bar>cos p * cos q\<bar> * \<bar>c\<bar>"
    by (metis abs_mult abs_triangle_ineq)
  have 2: "\<bar>cos p * cos q\<bar> * \<bar>c\<bar> \<le> \<bar>cos p * cos q\<bar>"
    using that by (simp add: mult_left_le)
  have 3: "\<bar>sin p * sin q\<bar> + \<bar>cos p * cos q\<bar> \<le> 1"
  proof -
    have a: "2 * (\<bar>sin p\<bar> * \<bar>sin q\<bar>) \<le> (sin p)\<^sup>2 + (sin q)\<^sup>2"
      using sum_squares_bound [of "\<bar>sin p\<bar>" "\<bar>sin q\<bar>"] by simp
    have b: "2 * (\<bar>cos p\<bar> * \<bar>cos q\<bar>) \<le> (cos p)\<^sup>2 + (cos q)\<^sup>2"
      using sum_squares_bound [of "\<bar>cos p\<bar>" "\<bar>cos q\<bar>"] by simp
    have c: "(sin p)\<^sup>2 + (sin q)\<^sup>2 + ((cos p)\<^sup>2 + (cos q)\<^sup>2) = 2"
      using sin_cos_squared_add [of p] sin_cos_squared_add [of q] by linarith
    have "2 * (\<bar>sin p\<bar> * \<bar>sin q\<bar> + \<bar>cos p\<bar> * \<bar>cos q\<bar>) \<le> 2"
    proof -
      have "2 * (\<bar>sin p\<bar> * \<bar>sin q\<bar>) + 2 * (\<bar>cos p\<bar> * \<bar>cos q\<bar>)
            \<le> ((sin p)\<^sup>2 + (sin q)\<^sup>2) + ((cos p)\<^sup>2 + (cos q)\<^sup>2)"
        by (rule add_mono [OF a b])
      then show ?thesis by (simp only: c distrib_left)
    qed
    then show ?thesis by (simp add: abs_mult)
  qed
  from 1 2 3 show ?thesis by linarith
qed

lemma hav_a_range: "0 \<le> haversine_a lat1 lon1 lat2 lon2 \<and> haversine_a lat1 lon1 lat2 lon2 \<le> 1"
  using cs_bound [of "cos (radians (lon2 - lon1))" "radians lat1" "radians lat2"]
  unfolding hav_a_alt by (simp add: abs_le_iff)

lemma haversine_km_value:
  "haversine_km lat1 lon1 lat2 lon2 =
     Inr (6371 * (2 * atan2 (sqrt (haversine_a lat1 lon1 lat2 lon2))
                            (sqrt (1 - haversine_a lat1 lon1 lat2 lon2))))"
  using hav_a_range [of lat1 lon1 lat2 lon2]
  by (simp add: haversine_km_def math_sqrt_def Let_def)

lemma haversine_a_same: "haversine_a lat lon lat lon = 0"
  by (simp add: haversine_a_def radians_def)

text \<open>
  C5. The great-circle distance is symmetric in its two endpoints, and the distance from a
  coordinate to itself is 0. (Over the reals \<^verbatim>\<open>a\<close> lies in \<open>[0, 1]\<close>, so neither square
  root raises.)
\<close>

theorem haversine_km_symmetric_zero:
  "haversine_km lat1 lon1 lat2 lon2 = haversine_km lat2 lon2 lat1 lon1
   \<and> haversine_km lat lon lat lon = Inr 0"
  by (simp add: haversine_km_value hav_a_sym [of lat2 lon2 lat1 lon1] haversine_a_same atan2_def)

lemma estimate_co2_strict_mono:
  assumes "0 < f" "d1 < d2"
  shows "estimate_co2 d1 f rf < estimate_co2 d2 f rf"
proof -
  have "d1 * f < d2 * f" using assms by simp
  with assms(2) show ?thesis
    by (auto simp add: estimate_co2_def Let_def SHORT_HAUL_MAX_KM_def RF_MULTIPLIER_def
        SHORT_HAUL_LTO_CO2_FIXED_KG_def LONG_HAUL_LTO_CO2_FIXED_KG_def)
qed



lemma action_co2_strict_mono_iff:
  assumes "0 < f"
  shows "(\<forall>d1 d2. d1 < d2 \<longrightarrow> action_co2 d1 f rf saf_pct < action_co2 d2 f rf saf_pct)
           \<longleftrightarrow> saf_pct < 125"
proof
  assume m: "\<forall>d1 d2. d1 < d2 \<longrightarrow> action_co2 d1 f rf saf_pct < action_co2 d2 f rf saf_pct"
  show "saf_pct < 125"
  proof (rule ccontr)
    assume "\<not> saf_pct < 125"
    then have "125 \<le> real_of_int saf_pct" by simp
    then have k: "1 - real_of_int saf_pct / 100 * SAF_MAX_REDUCTION_PERCENT \<le> 0"
      by (simp add: SAF_MAX_REDUCTION_PERCENT_def)
    have e: "estimate_co2 0 f rf < estimate_co2 1 f rf"
      using assms by (intro estimate_co2_strict_mono) simp_all
    from \<open>\<not> saf_pct < 125\<close> have p: "0 < saf_pct" by simp
    have "action_co2 1 f rf saf_pct \<le> action_co2 0 f rf saf_pct"
      using e k p by (simp add: action_co2_def Let_def mult_right_mono_neg)
    with m show False by (metis less_le_not_le zero_less_one)
  qed
next
  assume s: "saf_pct < 125"
  show "\<forall>d1 d2. d1 < d2 \<longrightarrow> action_co2 d1 f rf saf_pct < action_co2 d2 f rf saf_pct"
  proof (intro allI impI)
    fix d1 d2 :: real
    assume "d1 < d2"
    with assms have e: "estimate_co2 d1 f rf < estimate_co2 d2 f rf"
      by (rule estimate_co2_strict_mono)
    from s have "real_of_int saf_pct < 125" by simp
    then have "0 < 1 - real_of_int saf_pct / 100 * SAF_MAX_REDUCTION_PERCENT"
      by (simp add: SAF_MAX_REDUCTION_PERCENT_def)
    with e show "action_co2 d1 f rf saf_pct < action_co2 d2 f rf saf_pct"
      by (simp add: action_co2_def Let_def)
  qed
qed


subsection \<open>The history ledger\<close>

lemma refresh_history_tree_rows:
  "refresh_history_tree flt st =
     (case history_tree st of
        None \<Rightarrow> (Completed, st)
      | Some old \<Rightarrow>
          (case insert_rows flt (history_rows (history_csv st)) [] of
             (None, tree) \<Rightarrow> (Completed, st\<lparr>history_tree := Some tree\<rparr>)
           | (Some e, tree) \<Rightarrow> (Raised e, st\<lparr>history_tree := Some tree\<rparr>)))"
  by (simp add: refresh_history_tree_def history_rows_def split: option.splits)

lemma log_history_row_None: "log_history_row row None = Some [header, map csv_str row]"
  by (simp add: log_history_row_def)

lemma log_history_row_Some: "log_history_row row (Some recs) = Some (recs @ [map csv_str row])"
  by (simp add: log_history_row_def)

lemma append_all_Some:
  "foldl (\<lambda>file row. log_history_row row file) (Some recs) entries =
     Some (recs @ map (map csv_str) entries)"
  by (induction entries arbitrary: recs) (simp_all add: log_history_row_Some)

lemma append_all_None:
  "foldl (\<lambda>file row. log_history_row row file) None entries =
     (if entries = [] then None else Some (header # map (map csv_str) entries))"
  by (cases entries) (simp_all add: log_history_row_None append_all_Some)

lemma map_upds_nth:
  "distinct ks \<Longrightarrow> length ks = length vs \<Longrightarrow> i < length ks \<Longrightarrow> (m(ks [\<mapsto>] vs)) (ks ! i) = Some (vs ! i)"
proof (induction ks arbitrary: vs i m)
  case Nil
  then show ?case by simp
next
  case (Cons k ks)
  then obtain v vs' where vs: "vs = v # vs'" by (cases vs) auto
  show ?case
  proof (cases i)
    case 0
    with Cons.prems vs show ?thesis by (simp add: map_upds_apply_nontin)
  next
    case (Suc j)
    have "(m(k # ks [\<mapsto>] v # vs')) ((k # ks) ! Suc j) = ((m(k \<mapsto> v))(ks [\<mapsto>] vs')) (ks ! j)"
      by (simp only: map_upds_Cons nth_Cons_Suc)
    also have "\<dots> = Some (vs' ! j)"
      using Cons.prems vs Suc by (intro Cons.IH) simp_all
    finally show ?thesis by (simp add: vs Suc)
  qed
qed

lemma dict_row_nth:
  assumes "distinct fieldnames" and "length r = length fieldnames" and "i < length fieldnames"
  shows "dict_row fieldnames r (fieldnames ! i) = Some (Some (r ! i))"
  using assms map_upds_nth [of fieldnames "map Some r" i Map.empty]
  by (simp add: dict_row_def)

lemma history_rows_append_all:
  assumes "\<forall>e \<in> set entries. e \<noteq> []"
  shows "history_rows (foldl (\<lambda>file row. log_history_row row file) None entries) =
           map (\<lambda>e. dict_row header (map csv_str e)) entries"
proof -
  have "filter (\<lambda>r. r \<noteq> []) (map (map csv_str) entries) = map (map csv_str) entries"
    using assms by (induction entries) simp_all
  then show ?thesis
    by (simp add: append_all_None history_rows_def DictReader_def comp_def)
qed

lemma distinct_header: "distinct header" and length_header: "length header = 11"
  by (simp_all add: header_def)

lemma header_cells:
  assumes "length r = 11"
  shows "dict_row header r ''timestamp'' = Some (Some (r ! 0))"
    and "dict_row header r ''origin'' = Some (Some (r ! 1))"
    and "dict_row header r ''destination'' = Some (Some (r ! 2))"
    and "dict_row header r ''distance_km'' = Some (Some (r ! 3))"
    and "dict_row header r ''aircraft'' = Some (Some (r ! 4))"
    and "dict_row header r ''co2_kg'' = Some (Some (r ! 7))"
  using assms dict_row_nth [OF distinct_header, of r 0] dict_row_nth [OF distinct_header, of r 1]
    dict_row_nth [OF distinct_header, of r 2] dict_row_nth [OF distinct_header, of r 3]
    dict_row_nth [OF distinct_header, of r 4] dict_row_nth [OF distinct_header, of r 7]
  by (simp_all add: length_header) (simp_all add: header_def)

lemma tree_values_header:
  assumes "length r = 11" and "flt (r ! 3) = Some d" and "flt (r ! 7) = Some c"
  shows "tree_values flt (dict_row header r) =
           Inr (Some (r ! 0), r ! 1 @ [CHR '' '', CHR 0xE2, CHR 0x86, CHR 0x92, CHR '' ''] @ r ! 2,
                d, Some (r ! 4), c)"
  using assms(2,3)
  by (simp add: tree_values_def py_float_cell_def header_cells [OF assms(1)] fstr_def)

lemma insert_rows_map:
  assumes "\<forall>e \<in> set es. tree_values flt (h e) = Inr (v e)"
  shows "insert_rows flt (map h es) tree = (None, tree @ map v es)"
  using assms by (induction es arbitrary: tree) simp_all

lemma refresh_after_appends:
  assumes "history_tree st = Some old"
    and "history_csv st = foldl (\<lambda>file row. log_history_row row file) None entries"
    and "\<forall>e \<in> set entries. length e = 11 \<and> flt (csv_str (e ! 3)) \<noteq> None \<and> flt (csv_str (e ! 7)) \<noteq> None"
  shows "refresh_history_tree flt st =
           (Completed,
            st\<lparr>history_tree :=
                 Some (map (\<lambda>e. (Some (csv_str (e ! 0)),
                                  csv_str (e ! 1) @ [CHR '' '', CHR 0xE2, CHR 0x86, CHR 0x92, CHR '' '']
                                    @ csv_str (e ! 2),
                                  the (flt (csv_str (e ! 3))), Some (csv_str (e ! 4)),
                                  the (flt (csv_str (e ! 7)))))
                        entries)\<rparr>)"
proof -
  let ?v = "\<lambda>e. (Some (csv_str (e ! 0)),
                  csv_str (e ! 1) @ [CHR '' '', CHR 0xE2, CHR 0x86, CHR 0x92, CHR '' ''] @ csv_str (e ! 2),
                  the (flt (csv_str (e ! 3))), Some (csv_str (e ! 4)), the (flt (csv_str (e ! 7))))"
  have ne: "\<forall>e \<in> set entries. e \<noteq> []" using assms(3) by auto
  have rows: "history_rows (history_csv st) = map (\<lambda>e. dict_row header (map csv_str e)) entries"
    unfolding assms(2) using ne by (rule history_rows_append_all)
  have tv: "tree_values flt (dict_row header (map csv_str e)) = Inr (?v e)" if "e \<in> set entries" for e
  proof -
    from that assms(3) have l: "length e = 11" and "flt (csv_str (e ! 3)) \<noteq> None"
      and "flt (csv_str (e ! 7)) \<noteq> None" by auto
    then obtain d c where d: "flt (csv_str (e ! 3)) = Some d" and c: "flt (csv_str (e ! 7)) = Some c"
      by auto
    from l have "length (map csv_str e) = 11" by simp
    from tree_values_header [OF this, of flt d c] d c l show ?thesis by simp
  qed
  have "insert_rows flt (map (\<lambda>e. dict_row header (map csv_str e)) entries) [] = (None, [] @ map ?v entries)"
    by (rule insert_rows_map) (use tv in blast)
  then show ?thesis
    by (simp add: refresh_history_tree_rows assms(1) rows)
qed

text \<open>
  C8. Appending entries to a ledger that does not exist and then reading it gives back
  exactly those entries, oldest first: the rows read are the entries keyed by the header,
  as many as were appended, every field of an entry is found under its column name, and the
  history view shows one line per entry in the same order. The file is created by the first
  append (header first, once) and by nothing before it, a later append only adds a record,
  and reading a ledger that does not exist gives no rows and no error.
\<close>

theorem ledger_round_trip:
  "((\<forall>e \<in> set entries. e \<noteq> []) \<longrightarrow>
      history_rows (foldl (\<lambda>file row. log_history_row row file) None entries) =
        map (\<lambda>e. dict_row header (map csv_str e)) entries
      \<and> length (history_rows (foldl (\<lambda>file row. log_history_row row file) None entries)) =
        length entries)
   \<and> (length e = length header \<and> i < length header \<longrightarrow>
        dict_row header (map csv_str e) (header ! i) = Some (Some (csv_str (e ! i))))
   \<and> (history_tree st = Some old
        \<and> history_csv st = foldl (\<lambda>file row. log_history_row row file) None entries
        \<and> (\<forall>e \<in> set entries. length e = 11 \<and> flt (csv_str (e ! 3)) \<noteq> None
                                \<and> flt (csv_str (e ! 7)) \<noteq> None) \<longrightarrow>
        refresh_history_tree flt st =
          (Completed,
           st\<lparr>history_tree :=
                Some (map (\<lambda>e. (Some (csv_str (e ! 0)),
                                 csv_str (e ! 1) @ [CHR '' '', CHR 0xE2, CHR 0x86, CHR 0x92, CHR '' '']
                                   @ csv_str (e ! 2),
                                 the (flt (csv_str (e ! 3))), Some (csv_str (e ! 4)),
                                 the (flt (csv_str (e ! 7)))))
                       entries)\<rparr>))
   \<and> (foldl (\<lambda>file row. log_history_row row file) None entries = None \<longleftrightarrow> entries = [])
   \<and> log_history_row e None = Some [header, map csv_str e]
   \<and> log_history_row e (Some recs) = Some (recs @ [map csv_str e])
   \<and> history_rows None = []
   \<and> (history_csv st = None \<longrightarrow> fst (refresh_history_tree flt st) = Completed)"
proof (intro conjI impI)
  assume "\<forall>e \<in> set entries. e \<noteq> []"
  then have r: "history_rows (foldl (\<lambda>file row. log_history_row row file) None entries) =
        map (\<lambda>e. dict_row header (map csv_str e)) entries"
    by (rule history_rows_append_all)
  show "history_rows (foldl (\<lambda>file row. log_history_row row file) None entries) =
        map (\<lambda>e. dict_row header (map csv_str e)) entries"
    by (rule r)
  show "length (history_rows (foldl (\<lambda>file row. log_history_row row file) None entries)) =
        length entries"
    by (simp add: r)
next
  assume "length e = length header \<and> i < length header"
  then show "dict_row header (map csv_str e) (header ! i) = Some (Some (csv_str (e ! i)))"
    using dict_row_nth [OF distinct_header, of "map csv_str e" i] by simp
next
  assume "history_tree st = Some old
        \<and> history_csv st = foldl (\<lambda>file row. log_history_row row file) None entries
        \<and> (\<forall>e \<in> set entries. length e = 11 \<and> flt (csv_str (e ! 3)) \<noteq> None
                                \<and> flt (csv_str (e ! 7)) \<noteq> None)"
  then show "refresh_history_tree flt st =
          (Completed,
           st\<lparr>history_tree :=
                Some (map (\<lambda>e. (Some (csv_str (e ! 0)),
                                 csv_str (e ! 1) @ [CHR '' '', CHR 0xE2, CHR 0x86, CHR 0x92, CHR '' '']
                                   @ csv_str (e ! 2),
                                 the (flt (csv_str (e ! 3))), Some (csv_str (e ! 4)),
                                 the (flt (csv_str (e ! 7)))))
                       entries)\<rparr>)"
    using refresh_after_appends [of st old entries flt] by fast
next
  show "(foldl (\<lambda>file row. log_history_row row file) None entries = None) = (entries = [])"
    by (simp add: append_all_None)
next
  show "log_history_row e None = Some [header, map csv_str e]"
    by (rule log_history_row_None)
next
  show "log_history_row e (Some recs) = Some (recs @ [map csv_str e])"
    by (rule log_history_row_Some)
next
  show "history_rows None = []"
    by (simp add: history_rows_def)
next
  assume "history_csv st = None"
  then show "fst (refresh_history_tree flt st) = Completed"
    by (simp add: refresh_history_tree_def split: option.splits)
qed

theorem ledger_round_trip_witness:
  "history_rows (foldl (\<lambda>file row. log_history_row row file) None [entry1, entry2]) =
     [dict_row header (map csv_str entry1), dict_row header (map csv_str entry2)]
   \<and> dict_row header (map csv_str entry2) ''rf'' = Some (Some ''True'')
   \<and> refresh_history_tree float_dec
        (app0\<lparr>history_tree := Some [],
              history_csv := foldl (\<lambda>file row. log_history_row row file) None [entry1, entry2]\<rparr>) =
       (Completed,
        app0\<lparr>history_tree :=
               Some [(Some ''2026-01-05T09:30:00+00:00'',
                      ''DEL'' @ [CHR '' '', CHR 0xE2, CHR 0x86, CHR 0x92, CHR '' ''] @ ''BOM'',
                      1000, Some ''A320'', 165),
                     (Some ''2026-01-06T18:00:00+00:00'',
                      [CHR '' '', CHR 0xE2, CHR 0x86, CHR 0x92, CHR '' ''],
                      2000, Some ''A320'', 4332 / 10)],
              history_csv := foldl (\<lambda>file row. log_history_row row file) None [entry1, entry2]\<rparr>)
   \<and> fst (refresh_history_tree float_dec app0) = Completed"
proof -
  let ?es = "[entry1, entry2]"
  let ?st = "app0\<lparr>history_tree := Some [],
                  history_csv := foldl (\<lambda>file row. log_history_row row file) None ?es\<rparr>"
  note T = ledger_round_trip [where entries = ?es and flt = float_dec]
  have ne: "\<forall>e \<in> set ?es. e \<noteq> []"
    by (simp add: entry1_def entry2_def)
  have fl: "float_dec ''1000.0'' = Some 1000" "float_dec ''165.0'' = Some 165"
    "float_dec ''2000.0'' = Some 2000" "float_dec ''433.2'' = Some (4332 / 10)"
    by (simp_all add: text_eval)
  have ok: "\<forall>e \<in> set ?es. length e = 11 \<and> float_dec (csv_str (e ! 3)) \<noteq> None
                                \<and> float_dec (csv_str (e ! 7)) \<noteq> None"
  proof -
    have fn: "float_dec ''1000.0'' \<noteq> None" "float_dec ''165.0'' \<noteq> None"
      "float_dec ''2000.0'' \<noteq> None" "float_dec ''433.2'' \<noteq> None"
      by (simp_all only: fl option.distinct not_False_eq_True)
    show ?thesis
      by (simp add: entry1_def entry2_def fn del: not_None_eq)
  qed
  have c1: "history_rows (foldl (\<lambda>file row. log_history_row row file) None ?es) =
              map (\<lambda>e. dict_row header (map csv_str e)) ?es"
    using T [THEN conjunct1] ne by fast
  have c2: "dict_row header (map csv_str entry2) (header ! 5) = Some (Some (csv_str (entry2 ! 5)))"
    by (rule T [where e = entry2 and i = 5, THEN conjunct2, THEN conjunct1, THEN mp])
      (simp add: entry2_def header_def)
  have c3: "refresh_history_tree float_dec ?st =
          (Completed,
           ?st\<lparr>history_tree :=
                Some (map (\<lambda>e. (Some (csv_str (e ! 0)),
                                 csv_str (e ! 1) @ [CHR '' '', CHR 0xE2, CHR 0x86, CHR 0x92, CHR '' '']
                                   @ csv_str (e ! 2),
                                 the (float_dec (csv_str (e ! 3))), Some (csv_str (e ! 4)),
                                 the (float_dec (csv_str (e ! 7)))))
                       ?es)\<rparr>)"
    by (rule T [where st = ?st and old = "[]", THEN conjunct2, THEN conjunct2, THEN conjunct1, THEN mp])
      (use ok in simp)
  have c4: "fst (refresh_history_tree float_dec app0) = Completed"
    by (rule T [where st = app0, THEN conjunct2, THEN conjunct2, THEN conjunct2, THEN conjunct2,
          THEN conjunct2, THEN conjunct2, THEN conjunct2, THEN mp])
      (simp add: app0_def)
  have v: "map (\<lambda>e. (Some (csv_str (e ! 0)),
                     csv_str (e ! 1) @ [CHR '' '', CHR 0xE2, CHR 0x86, CHR 0x92, CHR '' ''] @ csv_str (e ! 2),
                     the (float_dec (csv_str (e ! 3))), Some (csv_str (e ! 4)),
                     the (float_dec (csv_str (e ! 7))))) ?es =
           [(Some ''2026-01-05T09:30:00+00:00'',
             ''DEL'' @ [CHR '' '', CHR 0xE2, CHR 0x86, CHR 0x92, CHR '' ''] @ ''BOM'',
             1000, Some ''A320'', 165),
            (Some ''2026-01-06T18:00:00+00:00'',
             [CHR '' '', CHR 0xE2, CHR 0x86, CHR 0x92, CHR '' ''],
             2000, Some ''A320'', 4332 / 10)]"
    by (simp add: entry1_def entry2_def fl)
  from c1 have c1': "history_rows (foldl (\<lambda>file row. log_history_row row file) None ?es) =
     [dict_row header (map csv_str entry1), dict_row header (map csv_str entry2)]"
    by simp
  from c2 have c2': "dict_row header (map csv_str entry2) ''rf'' = Some (Some ''True'')"
    by (simp add: header_def entry2_def)
  from c3 have c3': "refresh_history_tree float_dec ?st =
       (Completed,
        app0\<lparr>history_tree :=
               Some [(Some ''2026-01-05T09:30:00+00:00'',
                      ''DEL'' @ [CHR '' '', CHR 0xE2, CHR 0x86, CHR 0x92, CHR '' ''] @ ''BOM'',
                      1000, Some ''A320'', 165),
                     (Some ''2026-01-06T18:00:00+00:00'',
                      [CHR '' '', CHR 0xE2, CHR 0x86, CHR 0x92, CHR '' ''],
                      2000, Some ''A320'', 4332 / 10)],
              history_csv := foldl (\<lambda>file row. log_history_row row file) None ?es\<rparr>)"
    unfolding v by simp
  from c1' c2' c3' c4 show ?thesis by (intro conjI)
qed

subsection \<open>The calculation\<close>

lemma refresh_history_csv [simp]:
  "history_csv (snd (refresh_history_tree flt st)) = history_csv st"
  by (simp add: refresh_history_tree_def split: option.splits prod.splits)

lemma refresh_result_labels [simp]:
  "result_labels (snd (refresh_history_tree flt st)) = result_labels st"
  by (simp add: refresh_history_tree_def split: option.splits prod.splits)

lemma refresh_not_modal [simp]:
  "fst (refresh_history_tree flt st) \<noteq> Modal t"
  by (simp add: refresh_history_tree_def split: option.splits prod.splits)

lemma calculate_action_ok:
  assumes "route_distance flt (airports st) (parse_iata_from_combo (origin_var st))
             (parse_iata_from_combo (dest_var st)) (py_strip (dist_var st)) = Inr d"
    and "factors st (Some (ac_cb st)) = Some f"
  shows "calculate_action flt ts st =
           refresh_history_tree flt
             (st\<lparr>result_labels :=
                   Some \<lparr>lbl_distance = d, lbl_co2 = action_co2 d f (rf_var st) (saf_var st),
                         lbl_fuel = fuel_liters_from_co2 (action_co2 d f (rf_var st) (saf_var st)),
                         lbl_trees = trees_needed (action_co2 d f (rf_var st) (saf_var st)),
                         lbl_cost = action_co2 d f (rf_var st) (saf_var st) * OFFSET_COST_PER_KG\<rparr>,
                 suggestion_lbl := suggestion d,
                 history_csv :=
                   log_history_row
                     (history_entry ts (parse_iata_from_combo (origin_var st))
                        (parse_iata_from_combo (dest_var st)) d (ac_cb st) (rf_var st) (saf_var st)
                        (action_co2 d f (rf_var st) (saf_var st)))
                     (history_csv st)\<rparr>)"
  using assms by (simp add: calculate_action_def Let_def)

lemma calculate_action_ended:
  assumes "route_distance flt (airports st) (parse_iata_from_combo (origin_var st))
             (parse_iata_from_combo (dest_var st)) (py_strip (dist_var st)) = Inl ending"
  shows "calculate_action flt ts st = (ending, st)"
  using assms by (simp add: calculate_action_def Let_def)

lemma calculate_action_modal:
  assumes "fst (calculate_action flt ts st) = Modal t"
  shows "snd (calculate_action flt ts st) = st"
  using assms
  by (auto simp add: calculate_action_def Let_def split: sum.splits option.splits)

lemma route_distance_manual_ignored:
  "origin \<noteq> [] \<Longrightarrow> dest \<noteq> [] \<Longrightarrow>
     route_distance flt aps origin dest manual = route_distance flt aps origin dest manual'"
  by (simp add: route_distance_def)

lemma calculate_action_dist_var:
  assumes "parse_iata_from_combo (origin_var st) \<noteq> []" and "parse_iata_from_combo (dest_var st) \<noteq> []"
  shows "calculate_action flt ts (st\<lparr>dist_var := m\<rparr>) =
           (fst (calculate_action flt ts st), (snd (calculate_action flt ts st))\<lparr>dist_var := m\<rparr>)"
proof -
  have r: "route_distance flt (airports st) (parse_iata_from_combo (origin_var st))
             (parse_iata_from_combo (dest_var st)) (py_strip m) =
           route_distance flt (airports st) (parse_iata_from_combo (origin_var st))
             (parse_iata_from_combo (dest_var st)) (py_strip (dist_var st))"
    using assms by (rule route_distance_manual_ignored)
  show ?thesis
    by (simp add: calculate_action_def Let_def r refresh_history_tree_def
        split: sum.splits option.splits prod.splits)
qed

lemma calculate_action_completed:
  assumes "route_distance flt (airports st) (parse_iata_from_combo (origin_var st))
             (parse_iata_from_combo (dest_var st)) (py_strip (dist_var st)) = Inr d"
    and "factors st (Some (ac_cb st)) = Some f"
    and "history_csv st = None"
    and "flt (fmt_1f d) \<noteq> None"
    and "flt (fmt_1f (action_co2 d f (rf_var st) (saf_var st))) \<noteq> None"
  shows "fst (calculate_action flt ts st) = Completed"
proof (cases "history_tree st")
  case None
  then show ?thesis
    unfolding calculate_action_ok [OF assms(1,2)] by (simp add: refresh_history_tree_def)
next
  case (Some old)
  let ?e = "history_entry ts (parse_iata_from_combo (origin_var st))
              (parse_iata_from_combo (dest_var st)) d (ac_cb st) (rf_var st) (saf_var st)
              (action_co2 d f (rf_var st) (saf_var st))"
  let ?st = "st\<lparr>result_labels :=
                   Some \<lparr>lbl_distance = d, lbl_co2 = action_co2 d f (rf_var st) (saf_var st),
                         lbl_fuel = fuel_liters_from_co2 (action_co2 d f (rf_var st) (saf_var st)),
                         lbl_trees = trees_needed (action_co2 d f (rf_var st) (saf_var st)),
                         lbl_cost = action_co2 d f (rf_var st) (saf_var st) * OFFSET_COST_PER_KG\<rparr>,
                 suggestion_lbl := suggestion d,
                 history_csv := log_history_row ?e (history_csv st)\<rparr>"
  have t: "history_tree ?st = Some old" using Some by simp
  have c: "history_csv ?st = foldl (\<lambda>file row. log_history_row row file) None [?e]"
    by (simp add: assms(3))
  have e: "\<forall>e \<in> set [?e]. length e = 11 \<and> flt (csv_str (e ! 3)) \<noteq> None \<and> flt (csv_str (e ! 7)) \<noteq> None"
    using assms(4,5) by (simp add: history_entry_def del: not_None_eq)
  show ?thesis
    unfolding calculate_action_ok [OF assms(1,2)] refresh_after_appends [OF t c e] by simp
qed

lemma calculate_action_history_csv:
  assumes "route_distance flt (airports st) (parse_iata_from_combo (origin_var st))
             (parse_iata_from_combo (dest_var st)) (py_strip (dist_var st)) = Inr d"
    and "factors st (Some (ac_cb st)) = Some f"
  shows "history_csv (snd (calculate_action flt ts st)) =
           log_history_row
             (history_entry ts (parse_iata_from_combo (origin_var st))
                (parse_iata_from_combo (dest_var st)) d (ac_cb st) (rf_var st) (saf_var st)
                (action_co2 d f (rf_var st) (saf_var st)))
             (history_csv st)"
  unfolding calculate_action_ok [OF assms]
  by simp

text \<open>
  C2 (as amended). The calculation has no range check on the SAF percentage and neither
  rejects nor clamps it: for every value, also below 0 or above 100, once the distance and
  the aircraft resolve, no error is shown, the figure is the estimate unchanged when the
  percentage is at most 0 and the estimate times \<open>1 - saf/100 * 0.8\<close> when it is positive,
  and the entry is appended to the ledger.
\<close>

theorem calculate_action_saf_unchecked:
  assumes "route_distance flt (airports st) (parse_iata_from_combo (origin_var st))
             (parse_iata_from_combo (dest_var st)) (py_strip (dist_var st)) = Inr d"
    and "factors st (Some (ac_cb st)) = Some f"
  shows "(\<forall>t. fst (calculate_action flt ts st) \<noteq> Modal t)
    \<and> map_option lbl_co2 (result_labels (snd (calculate_action flt ts st))) =
        Some (if 0 < saf_var st
              then estimate_co2 d f (rf_var st) * (1 - real_of_int (saf_var st) / 100 * (8 / 10))
              else estimate_co2 d f (rf_var st))
    \<and> history_csv (snd (calculate_action flt ts st)) =
        log_history_row
          (history_entry ts (parse_iata_from_combo (origin_var st))
             (parse_iata_from_combo (dest_var st)) d (ac_cb st) (rf_var st) (saf_var st)
             (action_co2 d f (rf_var st) (saf_var st)))
          (history_csv st)"
  unfolding calculate_action_ok [OF assms]
  by (simp add: action_co2_def Let_def SAF_MAX_REDUCTION_PERCENT_def)

theorem calculate_action_saf_unchecked_witness:
  "(\<forall>t. fst (calculate_action float_dec ''T'' (app0\<lparr>dist_var := ''1000'', saf_var := 150\<rparr>)) \<noteq> Modal t)
   \<and> map_option lbl_co2
        (result_labels (snd (calculate_action float_dec ''T'' (app0\<lparr>dist_var := ''1000'', saf_var := 150\<rparr>))))
      = Some (- 33)"
proof -
  let ?st = "app0\<lparr>dist_var := ''1000'', saf_var := 150\<rparr>"
  have r: "route_distance float_dec (airports ?st) (parse_iata_from_combo (origin_var ?st))
             (parse_iata_from_combo (dest_var ?st)) (py_strip (dist_var ?st)) = Inr 1000"
    by (simp add: app0_def route_distance_def text_eval)
  have f: "factors ?st (Some (ac_cb ?st)) = Some (115 / 1000)"
    by (simp add: app0_def)
  from calculate_action_saf_unchecked [OF r f, of "''T''"] show ?thesis
    by (simp add: app0_def co2_eval)
qed

text \<open>
  The claim as stated fails: with 150 percent the calculation completes and logs a negative
  figure.
\<close>

theorem calculate_action_saf_150_counterexample:
  "fst (calculate_action float_dec ''T'' (app0\<lparr>dist_var := ''1000'', saf_var := 150\<rparr>)) = Completed
   \<and> history_csv (snd (calculate_action float_dec ''T'' (app0\<lparr>dist_var := ''1000'', saf_var := 150\<rparr>))) =
       Some [header, [''T'', [], [], ''1000.0'', ''A320'', ''False'', ''150'', ''-33.0'', ''-13.1'',
                      ''-1.5'', ''-19.8'']]"
proof -
  let ?st = "app0\<lparr>dist_var := ''1000'', saf_var := 150\<rparr>"
  have r: "route_distance float_dec (airports ?st) (parse_iata_from_combo (origin_var ?st))
             (parse_iata_from_combo (dest_var ?st)) (py_strip (dist_var ?st)) = Inr 1000"
    by (simp add: app0_def route_distance_def text_eval)
  have f: "factors ?st (Some (ac_cb ?st)) = Some (115 / 1000)"
    by (simp add: app0_def)
  have h: "history_csv ?st = None"
    by (simp add: app0_def)
  have n: "float_dec (fmt_1f 1000) \<noteq> None"
    "float_dec (fmt_1f (action_co2 1000 (115 / 1000) (rf_var ?st) (saf_var ?st))) \<noteq> None"
    by (simp_all add: app0_def co2_eval text_eval)
  have p: "parse_iata_from_combo [] = []"
    by (simp add: parse_iata_from_combo_def)
  have c1: "fst (calculate_action float_dec ''T'' ?st) = Completed"
    by (rule calculate_action_completed [OF r f h n])
  have c2: "history_csv (snd (calculate_action float_dec ''T'' ?st)) =
       Some [header, [''T'', [], [], ''1000.0'', ''A320'', ''False'', ''150'', ''-33.0'', ''-13.1'',
                      ''-1.5'', ''-19.8'']]"
    using calculate_action_history_csv [OF r f, of "''T''"]
    by (simp add: app0_def p log_history_row_def history_entry_def text_eval co2_eval)
  from c1 c2 show ?thesis by (intro conjI)
qed

lemma route_distance_modal_ex:
  "(\<exists>t. route_distance flt aps origin dest manual = Inl (Modal t)) \<longleftrightarrow>
     (origin \<noteq> [] \<and> dest \<noteq> [] \<and> (aps origin = None \<or> aps dest = None))
     \<or> ((origin = [] \<or> dest = []) \<and> flt manual = None)"
  by (auto simp add: route_distance_def Let_def split: option.splits sum.splits)

lemma calculate_action_unknown_aircraft:
  assumes "route_distance flt (airports st) (parse_iata_from_combo (origin_var st))
             (parse_iata_from_combo (dest_var st)) (py_strip (dist_var st)) = Inr d"
    and "factors st (Some (ac_cb st)) = None"
  shows "calculate_action flt ts st = (Modal ''Aircraft Required'', st)"
  using assms by (simp add: calculate_action_def Let_def)

lemma calculate_action_modal_iff:
  "(\<exists>t. fst (calculate_action flt ts st) = Modal t) \<longleftrightarrow>
     (parse_iata_from_combo (origin_var st) \<noteq> [] \<and> parse_iata_from_combo (dest_var st) \<noteq> []
        \<and> (airports st (parse_iata_from_combo (origin_var st)) = None
             \<or> airports st (parse_iata_from_combo (dest_var st)) = None))
     \<or> ((parse_iata_from_combo (origin_var st) = [] \<or> parse_iata_from_combo (dest_var st) = [])
          \<and> flt (py_strip (dist_var st)) = None)
     \<or> ((\<exists>d. route_distance flt (airports st) (parse_iata_from_combo (origin_var st))
                (parse_iata_from_combo (dest_var st)) (py_strip (dist_var st)) = Inr d)
          \<and> factors st (Some (ac_cb st)) = None)"
proof -
  let ?r = "route_distance flt (airports st) (parse_iata_from_combo (origin_var st))
              (parse_iata_from_combo (dest_var st)) (py_strip (dist_var st))"
  let ?A = "(parse_iata_from_combo (origin_var st) \<noteq> [] \<and> parse_iata_from_combo (dest_var st) \<noteq> []
          \<and> (airports st (parse_iata_from_combo (origin_var st)) = None
               \<or> airports st (parse_iata_from_combo (dest_var st)) = None))
       \<or> ((parse_iata_from_combo (origin_var st) = [] \<or> parse_iata_from_combo (dest_var st) = [])
            \<and> flt (py_strip (dist_var st)) = None)"
  have ab: "(\<exists>t. ?r = Inl (Modal t)) \<longleftrightarrow> ?A"
    by (rule route_distance_modal_ex)
  show ?thesis
  proof (cases ?r)
    case (Inl ending)
    then have "fst (calculate_action flt ts st) = ending"
      by (simp add: calculate_action_ended)
    then have "(\<exists>t. fst (calculate_action flt ts st) = Modal t) \<longleftrightarrow> ?A"
      using ab Inl by simp
    moreover have "\<not> (\<exists>d. ?r = Inr d)" using Inl by simp
    ultimately show ?thesis by (simp only: simp_thms disj_assoc)
  next
    case (Inr d)
    then have no: "\<not> ?A" using ab by simp
    show ?thesis
    proof (cases "factors st (Some (ac_cb st))")
      case None
      with Inr have "fst (calculate_action flt ts st) = Modal ''Aircraft Required''"
        by (simp add: calculate_action_def Let_def)
      then have "\<exists>t. fst (calculate_action flt ts st) = Modal t" by (rule exI)
      moreover have "(\<exists>d. ?r = Inr d) \<and> factors st (Some (ac_cb st)) = None"
        using Inr None by simp
      ultimately show ?thesis by (simp only: simp_thms)
    next
      case (Some f)
      have "fst (calculate_action flt ts st) \<noteq> Modal t" for t
        unfolding calculate_action_ok [OF Inr Some] by simp
      then have "\<not> (\<exists>t. fst (calculate_action flt ts st) = Modal t)" by simp
      moreover have "\<not> ((\<exists>d. ?r = Inr d) \<and> factors st (Some (ac_cb st)) = None)"
        using Some by simp
      ultimately show ?thesis using no by (simp only: simp_thms disj_assoc)
    qed
  qed
qed

lemma calculate_action_modal_title:
  assumes "fst (calculate_action flt ts st) = Modal t"
  shows "t \<in> {''Airport Not Found'', ''Input Required'', ''Aircraft Required''}"
  using assms
  by (auto simp add: calculate_action_def Let_def route_distance_def
      split: sum.splits option.splits if_splits)

text \<open>
  C3 (as amended). Whenever the calculation reports an error, the state, and with it the
  ledger, is unchanged, and the error is one of three: an airport code that is not in the
  table, a manual distance that is not a number, and, once the distance has resolved, an
  aircraft type that is not in the factor table. These are the only inputs that are
  rejected. Whenever the action ends before a distance is there, also by an exception of
  the distance computation, the state is unchanged as well.
\<close>

theorem calculate_action_error_no_append:
  "(fst (calculate_action flt ts st) = Modal t \<longrightarrow>
      snd (calculate_action flt ts st) = st
      \<and> t \<in> {''Airport Not Found'', ''Input Required'', ''Aircraft Required''})
   \<and> (route_distance flt (airports st) (parse_iata_from_combo (origin_var st))
         (parse_iata_from_combo (dest_var st)) (py_strip (dist_var st)) = Inl ending \<longrightarrow>
       calculate_action flt ts st = (ending, st))
   \<and> ((\<exists>t. fst (calculate_action flt ts st) = Modal t) \<longleftrightarrow>
        (parse_iata_from_combo (origin_var st) \<noteq> [] \<and> parse_iata_from_combo (dest_var st) \<noteq> []
           \<and> (airports st (parse_iata_from_combo (origin_var st)) = None
                \<or> airports st (parse_iata_from_combo (dest_var st)) = None))
        \<or> ((parse_iata_from_combo (origin_var st) = [] \<or> parse_iata_from_combo (dest_var st) = [])
             \<and> flt (py_strip (dist_var st)) = None)
        \<or> ((\<exists>d. route_distance flt (airports st) (parse_iata_from_combo (origin_var st))
                   (parse_iata_from_combo (dest_var st)) (py_strip (dist_var st)) = Inr d)
             \<and> factors st (Some (ac_cb st)) = None))"
proof (intro conjI impI)
  assume m: "fst (calculate_action flt ts st) = Modal t"
  then show "snd (calculate_action flt ts st) = st"
    by (rule calculate_action_modal)
  from m show "t \<in> {''Airport Not Found'', ''Input Required'', ''Aircraft Required''}"
    by (rule calculate_action_modal_title)
next
  assume "route_distance flt (airports st) (parse_iata_from_combo (origin_var st))
         (parse_iata_from_combo (dest_var st)) (py_strip (dist_var st)) = Inl ending"
  then show "calculate_action flt ts st = (ending, st)"
    by (rule calculate_action_ended)
next
  show "(\<exists>t. fst (calculate_action flt ts st) = Modal t) \<longleftrightarrow>
        (parse_iata_from_combo (origin_var st) \<noteq> [] \<and> parse_iata_from_combo (dest_var st) \<noteq> []
           \<and> (airports st (parse_iata_from_combo (origin_var st)) = None
                \<or> airports st (parse_iata_from_combo (dest_var st)) = None))
        \<or> ((parse_iata_from_combo (origin_var st) = [] \<or> parse_iata_from_combo (dest_var st) = [])
             \<and> flt (py_strip (dist_var st)) = None)
        \<or> ((\<exists>d. route_distance flt (airports st) (parse_iata_from_combo (origin_var st))
                   (parse_iata_from_combo (dest_var st)) (py_strip (dist_var st)) = Inr d)
             \<and> factors st (Some (ac_cb st)) = None)"
    by (rule calculate_action_modal_iff)
qed

theorem calculate_action_error_no_append_witness:
  "fst (calculate_action float_dec ''T'' (app0\<lparr>dist_var := ''1000'', ac_cb := ''B747''\<rparr>))
     = Modal ''Aircraft Required''
   \<and> snd (calculate_action float_dec ''T'' (app0\<lparr>dist_var := ''1000'', ac_cb := ''B747''\<rparr>))
     = app0\<lparr>dist_var := ''1000'', ac_cb := ''B747''\<rparr>"
proof -
  let ?st = "app0\<lparr>dist_var := ''1000'', ac_cb := ''B747''\<rparr>"
  have r: "route_distance float_dec (airports ?st) (parse_iata_from_combo (origin_var ?st))
             (parse_iata_from_combo (dest_var ?st)) (py_strip (dist_var ?st)) = Inr 1000"
    by (simp add: app0_def route_distance_def text_eval)
  have f: "factors ?st (Some (ac_cb ?st)) = None"
    by (simp add: app0_def)
  have m: "fst (calculate_action float_dec ''T'' ?st) = Modal ''Aircraft Required''"
    by (simp only: calculate_action_unknown_aircraft [OF r f] fst_conv)
  with calculate_action_error_no_append [of float_dec "''T''" ?st "''Aircraft Required''"]
  show ?thesis by blast
qed

text \<open>
  The claim as stated fails: a negative manual distance is not rejected, and its entry is
  appended to a ledger that did not exist before.
\<close>

theorem calculate_action_negative_distance_counterexample:
  "history_csv (app0\<lparr>dist_var := ''-5''\<rparr>) = None
   \<and> fst (calculate_action float_dec ''T'' (app0\<lparr>dist_var := ''-5''\<rparr>)) = Completed
   \<and> history_csv (snd (calculate_action float_dec ''T'' (app0\<lparr>dist_var := ''-5''\<rparr>))) =
       Some [header, [''T'', [], [], ''-5.0'', ''A320'', ''False'', ''0'', ''49.4'', ''19.6'', ''2.2'',
                      ''29.7'']]"
proof -
  let ?st = "app0\<lparr>dist_var := ''-5''\<rparr>"
  have r: "route_distance float_dec (airports ?st) (parse_iata_from_combo (origin_var ?st))
             (parse_iata_from_combo (dest_var ?st)) (py_strip (dist_var ?st)) = Inr (- 5)"
    by (simp add: app0_def route_distance_def text_eval)
  have f: "factors ?st (Some (ac_cb ?st)) = Some (115 / 1000)"
    by (simp add: app0_def)
  have h: "history_csv ?st = None"
    by (simp add: app0_def)
  have n: "float_dec (fmt_1f (- 5)) \<noteq> None"
    "float_dec (fmt_1f (action_co2 (- 5) (115 / 1000) (rf_var ?st) (saf_var ?st))) \<noteq> None"
    by (simp_all add: app0_def co2_eval text_eval)
  have p: "parse_iata_from_combo [] = []"
    by (simp add: parse_iata_from_combo_def)
  have c1: "fst (calculate_action float_dec ''T'' ?st) = Completed"
    by (rule calculate_action_completed [OF r f h n])
  have c2: "history_csv (snd (calculate_action float_dec ''T'' ?st)) =
       Some [header, [''T'', [], [], ''-5.0'', ''A320'', ''False'', ''0'', ''49.4'', ''19.6'', ''2.2'',
                      ''29.7'']]"
    using calculate_action_history_csv [OF r f, of "''T''"]
    by (simp add: app0_def p log_history_row_def history_entry_def text_eval co2_eval)
  from h c1 c2 show ?thesis by (intro conjI)
qed

subsection \<open>Airport pair against manual distance\<close>

lemma route_distance_airports:
  assumes "origin \<noteq> []" and "dest \<noteq> []" and "aps origin = Some a" and "aps dest = Some b"
  shows "route_distance flt aps origin dest manual =
           (case haversine_km (ap_lat a) (ap_lon a) (ap_lat b) (ap_lon b) of
              Inl e \<Rightarrow> Inl (Raised e)
            | Inr x \<Rightarrow> Inr x)"
  using assms by (simp add: route_distance_def Let_def)

lemma route_distance_manual:
  assumes "origin = [] \<or> dest = []"
  shows "route_distance flt aps origin dest manual =
           (case flt manual of None \<Rightarrow> Inl (Modal ''Input Required'') | Some d \<Rightarrow> Inr d)"
  using assms by (auto simp add: route_distance_def)

lemma calculate_action_distance:
  assumes "route_distance flt (airports st) (parse_iata_from_combo (origin_var st))
             (parse_iata_from_combo (dest_var st)) (py_strip (dist_var st)) = Inr d"
    and "factors st (Some (ac_cb st)) = Some f"
  shows "map_option lbl_distance (result_labels (snd (calculate_action flt ts st))) = Some d"
  unfolding calculate_action_ok [OF assms] by simp

text \<open>
  C10. When the origin and the destination code are both given (non-empty after parsing)
  and both are in the airport table, the distance of the calculation is what
  \<^verbatim>\<open>haversine_km\<close> returns for the two airports, whatever the manual distance field holds,
  and an exception of \<^verbatim>\<open>haversine_km\<close> ends the action; with both codes given the manual
  distance field has no influence on the action at all. When one of the two codes is empty
  the distance is \<^verbatim>\<open>float\<close> of the manual field.
\<close>

theorem calculate_action_airports_first:
  "(parse_iata_from_combo (origin_var st) \<noteq> [] \<and> parse_iata_from_combo (dest_var st) \<noteq> []
      \<and> airports st (parse_iata_from_combo (origin_var st)) = Some a
      \<and> airports st (parse_iata_from_combo (dest_var st)) = Some b \<longrightarrow>
      (\<forall>manual. route_distance flt (airports st) (parse_iata_from_combo (origin_var st))
                  (parse_iata_from_combo (dest_var st)) manual =
                (case haversine_km (ap_lat a) (ap_lon a) (ap_lat b) (ap_lon b) of
                   Inl e \<Rightarrow> Inl (Raised e)
                 | Inr x \<Rightarrow> Inr x)))
   \<and> (parse_iata_from_combo (origin_var st) \<noteq> [] \<and> parse_iata_from_combo (dest_var st) \<noteq> []
      \<and> airports st (parse_iata_from_combo (origin_var st)) = Some a
      \<and> airports st (parse_iata_from_combo (dest_var st)) = Some b
      \<and> haversine_km (ap_lat a) (ap_lon a) (ap_lat b) (ap_lon b) = Inr x
      \<and> factors st (Some (ac_cb st)) = Some f \<longrightarrow>
      map_option lbl_distance (result_labels (snd (calculate_action flt ts st))) = Some x)
   \<and> (parse_iata_from_combo (origin_var st) \<noteq> [] \<and> parse_iata_from_combo (dest_var st) \<noteq> [] \<longrightarrow>
        calculate_action flt ts (st\<lparr>dist_var := m\<rparr>) =
          (fst (calculate_action flt ts st), (snd (calculate_action flt ts st))\<lparr>dist_var := m\<rparr>))
   \<and> (parse_iata_from_combo (origin_var st) = [] \<or> parse_iata_from_combo (dest_var st) = [] \<longrightarrow>
        route_distance flt (airports st) (parse_iata_from_combo (origin_var st))
          (parse_iata_from_combo (dest_var st)) (py_strip (dist_var st)) =
        (case flt (py_strip (dist_var st)) of
           None \<Rightarrow> Inl (Modal ''Input Required'')
         | Some d \<Rightarrow> Inr d))"
proof (intro conjI impI allI)
  fix manual
  assume "parse_iata_from_combo (origin_var st) \<noteq> [] \<and> parse_iata_from_combo (dest_var st) \<noteq> []
      \<and> airports st (parse_iata_from_combo (origin_var st)) = Some a
      \<and> airports st (parse_iata_from_combo (dest_var st)) = Some b"
  then show "route_distance flt (airports st) (parse_iata_from_combo (origin_var st))
                  (parse_iata_from_combo (dest_var st)) manual =
                (case haversine_km (ap_lat a) (ap_lon a) (ap_lat b) (ap_lon b) of
                   Inl e \<Rightarrow> Inl (Raised e)
                 | Inr x \<Rightarrow> Inr x)"
    by (intro route_distance_airports) simp_all
next
  assume h: "parse_iata_from_combo (origin_var st) \<noteq> [] \<and> parse_iata_from_combo (dest_var st) \<noteq> []
      \<and> airports st (parse_iata_from_combo (origin_var st)) = Some a
      \<and> airports st (parse_iata_from_combo (dest_var st)) = Some b
      \<and> haversine_km (ap_lat a) (ap_lon a) (ap_lat b) (ap_lon b) = Inr x
      \<and> factors st (Some (ac_cb st)) = Some f"
  then have r: "route_distance flt (airports st) (parse_iata_from_combo (origin_var st))
              (parse_iata_from_combo (dest_var st)) (py_strip (dist_var st)) = Inr x"
    using route_distance_airports [of "parse_iata_from_combo (origin_var st)"
        "parse_iata_from_combo (dest_var st)" "airports st" a b flt "py_strip (dist_var st)"]
    by simp
  from h have f: "factors st (Some (ac_cb st)) = Some f" by simp
  show "map_option lbl_distance (result_labels (snd (calculate_action flt ts st))) = Some x"
    by (rule calculate_action_distance [OF r f])
next
  assume "parse_iata_from_combo (origin_var st) \<noteq> [] \<and> parse_iata_from_combo (dest_var st) \<noteq> []"
  then show "calculate_action flt ts (st\<lparr>dist_var := m\<rparr>) =
          (fst (calculate_action flt ts st), (snd (calculate_action flt ts st))\<lparr>dist_var := m\<rparr>)"
    by (simp add: calculate_action_dist_var)
next
  assume "parse_iata_from_combo (origin_var st) = [] \<or> parse_iata_from_combo (dest_var st) = []"
  then show "route_distance flt (airports st) (parse_iata_from_combo (origin_var st))
          (parse_iata_from_combo (dest_var st)) (py_strip (dist_var st)) =
        (case flt (py_strip (dist_var st)) of
           None \<Rightarrow> Inl (Modal ''Input Required'')
         | Some d \<Rightarrow> Inr d)"
    by (rule route_distance_manual)
qed

theorem calculate_action_airports_first_witness:
  "(\<exists>x. haversine_km (ap_lat DEL) (ap_lon DEL) (ap_lat BOM) (ap_lon BOM) = Inr x
        \<and> map_option lbl_distance
             (result_labels
               (snd (calculate_action float_dec ''T''
                      (app0\<lparr>origin_var := ''del'', dest_var := ''bom '' @ EN_DASH @ '' Mumbai'',
                            dist_var := ''12''\<rparr>)))) = Some x)
   \<and> calculate_action float_dec ''T''
        (app0\<lparr>origin_var := ''del'', dest_var := ''bom '' @ EN_DASH @ '' Mumbai'', dist_var := ''99''\<rparr>) =
       (fst (calculate_action float_dec ''T''
              (app0\<lparr>origin_var := ''del'', dest_var := ''bom '' @ EN_DASH @ '' Mumbai'',
                    dist_var := ''12''\<rparr>)),
        (snd (calculate_action float_dec ''T''
               (app0\<lparr>origin_var := ''del'', dest_var := ''bom '' @ EN_DASH @ '' Mumbai'',
                     dist_var := ''12''\<rparr>)))\<lparr>dist_var := ''99''\<rparr>)
   \<and> route_distance float_dec (airports app0) [] ''BOM'' ''12'' = Inr 12"
proof -
  let ?S = "app0\<lparr>origin_var := ''del'', dest_var := ''bom '' @ EN_DASH @ '' Mumbai'', dist_var := ''12''\<rparr>"
  let ?M = "app0\<lparr>dest_var := ''bom'', dist_var := ''12''\<rparr>"
  have po: "parse_iata_from_combo (origin_var ?S) = ''DEL''"
    by (simp add: text_eval)
  have pd: "parse_iata_from_combo (dest_var ?S) = ''BOM''"
    by (simp add: text_eval)
  have ap: "airports ?S ''DEL'' = Some DEL" "airports ?S ''BOM'' = Some BOM"
    "factors ?S (Some (ac_cb ?S)) = Some (115 / 1000)"
    by (simp_all add: app0_def)
  have mo: "parse_iata_from_combo (origin_var ?M) = []" "parse_iata_from_combo (dest_var ?M) = ''BOM''"
    "py_strip (dist_var ?M) = ''12''" "airports ?M = airports app0"
    by (simp_all add: app0_def text_eval)
  have fl: "float_dec ''12'' = Some 12"
    by (simp add: text_eval)
  have u: "?S\<lparr>dist_var := ''99''\<rparr> =
    app0\<lparr>origin_var := ''del'', dest_var := ''bom '' @ EN_DASH @ '' Mumbai'', dist_var := ''99''\<rparr>"
    by simp
  note S = calculate_action_airports_first
             [where st = ?S and a = DEL and b = BOM and f = "115 / 1000" and flt = float_dec
                and ts = "''T''" and m = "''99''"]
  note M = calculate_action_airports_first [where st = ?M and flt = float_dec]
  let ?x = "6371 * (2 * atan2 (sqrt (haversine_a (ap_lat DEL) (ap_lon DEL) (ap_lat BOM) (ap_lon BOM)))
                               (sqrt (1 - haversine_a (ap_lat DEL) (ap_lon DEL) (ap_lat BOM) (ap_lon BOM))))"
  have hv: "haversine_km (ap_lat DEL) (ap_lon DEL) (ap_lat BOM) (ap_lon BOM) = Inr ?x"
    by (rule haversine_km_value)
  have c1a: "map_option lbl_distance (result_labels (snd (calculate_action float_dec ''T'' ?S))) = Some ?x"
    by (rule S [where x = ?x, THEN conjunct2, THEN conjunct1, THEN mp]) (simp only: po pd ap hv, simp)
  have c1: "\<exists>x. haversine_km (ap_lat DEL) (ap_lon DEL) (ap_lat BOM) (ap_lon BOM) = Inr x
        \<and> map_option lbl_distance (result_labels (snd (calculate_action float_dec ''T'' ?S))) = Some x"
    using hv c1a by (intro exI conjI)
  have c2: "calculate_action float_dec ''T'' (?S\<lparr>dist_var := ''99''\<rparr>) =
              (fst (calculate_action float_dec ''T'' ?S),
               (snd (calculate_action float_dec ''T'' ?S))\<lparr>dist_var := ''99''\<rparr>)"
    by (rule S [THEN conjunct2, THEN conjunct2, THEN conjunct1, THEN mp]) (simp only: po pd, simp)
  have c3: "route_distance float_dec (airports ?M) (parse_iata_from_combo (origin_var ?M))
              (parse_iata_from_combo (dest_var ?M)) (py_strip (dist_var ?M)) =
            (case float_dec (py_strip (dist_var ?M)) of
               None \<Rightarrow> Inl (Modal ''Input Required'')
             | Some d \<Rightarrow> Inr d)"
    by (rule M [THEN conjunct2, THEN conjunct2, THEN conjunct2, THEN mp]) (simp only: mo, simp)
  from c3 have c3': "route_distance float_dec (airports app0) [] ''BOM'' ''12'' = Inr 12"
    unfolding mo fl by simp
  from c1 c2 c3' show ?thesis unfolding u by (intro conjI)
qed

subsection \<open>Loading the emission factors\<close>

lemma factor_row_skip: "\<not> factor_parses flt row \<Longrightarrow> factor_row flt d row = d"
  by (simp add: factor_parses_def factor_row_def split: option.splits)

lemma foldl_factor_row_filter:
  "foldl (factor_row flt) d rows = foldl (factor_row flt) d (filter (factor_parses flt) rows)"
  by (induction rows arbitrary: d) (simp_all add: factor_row_skip)

lemma foldl_factor_row_lookup:
  "foldl (factor_row flt) d rows k =
     (if parsed_factors flt k rows = [] then d k else Some (last (parsed_factors flt k rows)))"
proof (induction rows arbitrary: d)
  case Nil
  then show ?case by (simp add: parsed_factors_def)
next
  case (Cons row rows)
  have "foldl (factor_row flt) d (row # rows) k = foldl (factor_row flt) (factor_row flt d row) rows k"
    by simp
  also have "\<dots> = (if parsed_factors flt k rows = [] then factor_row flt d row k
                   else Some (last (parsed_factors flt k rows)))"
    by (rule Cons.IH)
  also have "\<dots> = (if parsed_factors flt k (row # rows) = [] then d k
                   else Some (last (parsed_factors flt k (row # rows))))"
    by (auto simp add: parsed_factors_def factor_row_def split: option.splits)
  finally show ?case .
qed

lemma DictReader_filter:
  "DictReader (h # filter (\<lambda>r. factor_parses flt (dict_row h r)) rest) =
     filter (factor_parses flt) (DictReader (h # rest))"
  by (simp add: DictReader_def filter_map comp_def conj_commute)

text \<open>
  C4 (as amended). The table holds, for every aircraft type, what \<^verbatim>\<open>float()\<close> gave for the
  factor cell of the last row of that type whose factor cell \<^verbatim>\<open>float()\<close> accepts, whatever
  its sign, and nothing for a type without such a row. A row whose factor cell is missing or
  is not accepted is dropped: the file loads to the same table as the file without these
  rows. The load ends with an exception when the file does not exist and when reading it
  raises.
\<close>

theorem load_csv_factors_unchecked:
  "(\<exists>d. load_csv_factors flt (Some (recs, None)) = Inr d
        \<and> (\<forall>k. d k = (if parsed_factors flt k (DictReader recs) = [] then None
                      else Some (last (parsed_factors flt k (DictReader recs))))))
   \<and> load_csv_factors flt (Some (h # rest, None)) =
       load_csv_factors flt (Some (h # filter (\<lambda>r. factor_parses flt (dict_row h r)) rest, None))
   \<and> load_csv_factors flt None = Inl FileNotFoundError
   \<and> load_csv_factors flt (Some (recs, Some e)) = Inl e"
proof (intro conjI)
  let ?d = "foldl (factor_row flt) Map.empty (DictReader recs)"
  have "load_csv_factors flt (Some (recs, None)) = Inr ?d"
    by (simp add: load_csv_factors_def)
  moreover have "?d k = (if parsed_factors flt k (DictReader recs) = [] then None
                      else Some (last (parsed_factors flt k (DictReader recs))))" for k
    by (simp add: foldl_factor_row_lookup)
  ultimately show "\<exists>d. load_csv_factors flt (Some (recs, None)) = Inr d
        \<and> (\<forall>k. d k = (if parsed_factors flt k (DictReader recs) = [] then None
                      else Some (last (parsed_factors flt k (DictReader recs)))))"
    by (intro exI [of _ ?d] conjI allI)
next
  show "load_csv_factors flt (Some (h # rest, None)) =
       load_csv_factors flt (Some (h # filter (\<lambda>r. factor_parses flt (dict_row h r)) rest, None))"
    using foldl_factor_row_filter [of flt Map.empty "DictReader (h # rest)"]
    by (simp add: load_csv_factors_def DictReader_filter)
next
  show "load_csv_factors flt None = Inl FileNotFoundError"
    by (simp add: load_csv_factors_def)
next
  show "load_csv_factors flt (Some (recs, Some e)) = Inl e"
    by (simp add: load_csv_factors_def)
qed

lemma factor_recs_rows:
  "DictReader factor_recs =
     [[''AircraftType'' \<mapsto> Some ''A320'', ''EmissionFactor_kgCO2perkm'' \<mapsto> Some ''0.115''],
      [''AircraftType'' \<mapsto> Some ''B747'', ''EmissionFactor_kgCO2perkm'' \<mapsto> Some ''n/a''],
      [''AircraftType'' \<mapsto> Some ''X1'', ''EmissionFactor_kgCO2perkm'' \<mapsto> Some ''-1''],
      [''AircraftType'' \<mapsto> Some ''A320'', ''EmissionFactor_kgCO2perkm'' \<mapsto> Some ''0.12'']]"
  by (simp add: DictReader_def factor_recs_def dict_row_def)

theorem load_csv_factors_unchecked_witness:
  "\<exists>d. load_csv_factors float_dec (Some (factor_recs, None)) = Inr d
       \<and> d (Some ''A320'') = Some (12 / 100)
       \<and> d (Some ''B747'') = None
       \<and> d (Some ''X1'') = Some (- 1)"
proof -
  from load_csv_factors_unchecked [of float_dec factor_recs, THEN conjunct1]
  obtain d where a: "load_csv_factors float_dec (Some (factor_recs, None)) = Inr d"
    and b: "\<And>k. d k = (if parsed_factors float_dec k (DictReader factor_recs) = [] then None
                        else Some (last (parsed_factors float_dec k (DictReader factor_recs))))"
    by fast
  have f: "float_dec ''0.115'' = Some (115 / 1000)" "float_dec ''n/a'' = None"
    "float_dec ''-1'' = Some (- 1)" "float_dec ''0.12'' = Some (12 / 100)"
    by (simp_all add: text_eval)
  have p: "parsed_factors float_dec (Some ''A320'') (DictReader factor_recs) = [115 / 1000, 12 / 100]"
    "parsed_factors float_dec (Some ''B747'') (DictReader factor_recs) = []"
    "parsed_factors float_dec (Some ''X1'') (DictReader factor_recs) = [- 1]"
    unfolding factor_recs_rows by (simp_all add: parsed_factors_def List.map_filter_simps f)
  have "d (Some ''A320'') = Some (12 / 100)" "d (Some ''B747'') = None" "d (Some ''X1'') = Some (- 1)"
    unfolding b p by simp_all
  with a show ?thesis by (intro exI [of _ d] conjI)
qed

text \<open>
  The claim as stated fails: a row with the factor \<^verbatim>\<open>-1\<close> is loaded as it is.
\<close>

theorem load_csv_factors_negative_counterexample:
  "load_csv_factors float_dec
     (Some ([[''AircraftType'', ''EmissionFactor_kgCO2perkm''], [''A320'', ''-1'']], None)) =
   Inr [Some ''A320'' \<mapsto> - 1]"
proof -
  have f: "float_dec ''-1'' = Some (- 1)"
    by (simp add: text_eval)
  show ?thesis
    by (simp add: load_csv_factors_def DictReader_def dict_row_def factor_row_def f)
qed

subsection \<open>Exporting the ledger\<close>

lemmas csv_eval = csv_bytes_def csv_writerow_def csv_field_def CR_def LF_def write_text_def

lemma export_history_no_history:
  "history_csv st = None \<Longrightarrow> export_history linesep target files st = (Modal ''No History'', files, st)"
  by (simp add: export_history_def)

lemma export_history_cancelled:
  "export_history linesep [] files st =
     (if history_csv st = None then Modal ''No History'' else Completed, files, st)"
  by (simp add: export_history_def split: option.splits)

lemma read_text_no_CR: "CR \<notin> set (read_text s)"
  by (induction s rule: read_text.induct) (simp_all add: CR_def LF_def)

lemma write_text_LF: "write_text [LF] s = s"
  by (induction s) (simp_all add: write_text_def)

lemma CR_in_csv_bytes: "recs \<noteq> [] \<Longrightarrow> CR \<in> set (csv_bytes recs)"
  by (cases recs) (simp_all add: csv_bytes_def csv_writerow_def)

text \<open>
  Where \<^verbatim>\<open>os.linesep\<close> is LF, the export of a ledger with at least one record is never the
  ledger byte for byte: every CR LF of the ledger is written as LF.
\<close>

lemma export_history_lf_differs:
  assumes "history_csv st = Some recs" and "recs \<noteq> []" and "target \<noteq> []" and "target \<noteq> HISTORY_CSV"
  shows "export_history [LF] target files st =
           (Modal ''Export Successful'', files(target \<mapsto> read_text (csv_bytes recs)), st)
         \<and> read_text (csv_bytes recs) \<noteq> csv_bytes recs"
proof -
  have "read_text (csv_bytes recs) \<noteq> csv_bytes recs"
    using read_text_no_CR [of "csv_bytes recs"] CR_in_csv_bytes [OF assms(2)] by auto
  with assms show ?thesis by (simp add: export_history_def write_text_LF)
qed

lemma read_text_line:
  assumes "CR \<notin> set line"
  shows "read_text (line @ CR # LF # rest) = line @ LF # read_text rest"
  using assms
proof (induction line)
  case Nil
  then show ?case by simp
next
  case (Cons c cs)
  then show ?case by (cases cs) (auto simp add: CR_def LF_def)
qed

lemma write_text_line:
  assumes "LF \<notin> set line"
  shows "write_text linesep (line @ LF # rest) = line @ linesep @ write_text linesep rest"
  using assms by (induction line) (auto simp add: write_text_def)

lemma csv_field_plain: "plain s \<Longrightarrow> plain (csv_field s)"
  by (auto simp add: plain_def csv_field_def CR_def LF_def)

lemma join_comma_plain: "\<forall>s \<in> set ss. plain s \<Longrightarrow> plain (join_comma ss)"
  by (induction ss rule: join_comma.induct) (auto simp add: plain_def CR_def LF_def)

lemma csv_writerow_line:
  assumes "\<forall>s \<in> set flds. plain s"
  shows "\<exists>line. plain line \<and> csv_writerow flds = line @ [CR, LF]"
proof (cases "flds = [[]]")
  case True
  then show ?thesis by (simp add: csv_writerow_def plain_def CR_def LF_def)
next
  case False
  have "plain (join_comma (map csv_field flds))"
    using assms by (intro join_comma_plain) (simp add: csv_field_plain)
  with False show ?thesis by (simp add: csv_writerow_def)
qed

lemma crlf_round_trip:
  assumes "\<forall>r \<in> set recs. \<forall>s \<in> set r. plain s"
  shows "write_text [CR, LF] (read_text (csv_bytes recs)) = csv_bytes recs"
  using assms
proof (induction recs)
  case Nil
  then show ?case by (simp add: csv_bytes_def write_text_def)
next
  case (Cons r recs)
  then obtain line where l: "plain line" and w: "csv_writerow r = line @ [CR, LF]"
    using csv_writerow_line [of r] by auto
  from Cons have ih: "write_text [CR, LF] (read_text (csv_bytes recs)) = csv_bytes recs" by simp
  have "csv_bytes (r # recs) = line @ CR # LF # csv_bytes recs"
    by (simp add: csv_bytes_def w)
  moreover have "write_text [CR, LF] (read_text (line @ CR # LF # csv_bytes recs)) =
      line @ CR # LF # csv_bytes recs"
    using l by (simp add: read_text_line write_text_line plain_def ih)
  ultimately show ?case by simp
qed

text \<open>
  Where \<^verbatim>\<open>os.linesep\<close> is CR LF, the export is the ledger byte for byte, as long as no field
  holds a line break.
\<close>

lemma export_history_crlf_verbatim:
  assumes "history_csv st = Some recs" and "target \<noteq> []" and "target \<noteq> HISTORY_CSV"
    and "\<forall>r \<in> set recs. \<forall>s \<in> set r. plain s"
  shows "export_history [CR, LF] target files st =
           (Modal ''Export Successful'', files(target \<mapsto> csv_bytes recs), st)"
  using assms by (simp add: export_history_def crlf_round_trip)

text \<open>
  C9. The export is meant to be a byte-for-byte copy of the ledger, and to write nothing
  when there is no ledger. Evaluated on a ledger of one entry where \<^verbatim>\<open>os.linesep\<close> is LF:
  the exported file ends its lines with LF, the ledger with CR LF, so the copy is two bytes
  shorter and not verbatim. Without a ledger the export reports that there is no history
  and leaves the files as they are.
\<close>

theorem export_history_lf_not_verbatim:
  "export_history [LF] ''out.csv'' Map.empty (app0\<lparr>history_csv := log_history_row entry1 None\<rparr>) =
     (Modal ''Export Successful'',
      [''out.csv'' \<mapsto>
         ''timestamp,origin,destination,distance_km,aircraft,rf,saf_pct,co2_kg,fuel_liters,trees,offset_inr''
         @ [LF] @ ''2026-01-05T09:30:00+00:00,DEL,BOM,1000.0,A320,False,0,165.0,65.3,7.5,99.0'' @ [LF]],
      app0\<lparr>history_csv := log_history_row entry1 None\<rparr>)
   \<and> map_option csv_bytes (log_history_row entry1 None) =
       Some (''timestamp,origin,destination,distance_km,aircraft,rf,saf_pct,co2_kg,fuel_liters,trees,offset_inr''
             @ [CR, LF] @ ''2026-01-05T09:30:00+00:00,DEL,BOM,1000.0,A320,False,0,165.0,65.3,7.5,99.0''
             @ [CR, LF])
   \<and> export_history [LF] ''out.csv'' Map.empty app0 = (Modal ''No History'', Map.empty, app0)"
proof -
  have b: "csv_bytes [header, map csv_str entry1] =
      ''timestamp,origin,destination,distance_km,aircraft,rf,saf_pct,co2_kg,fuel_liters,trees,offset_inr''
      @ [CR, LF] @ ''2026-01-05T09:30:00+00:00,DEL,BOM,1000.0,A320,False,0,165.0,65.3,7.5,99.0'' @ [CR, LF]"
    by (simp add: csv_eval header_def entry1_def)
  have r: "write_text [LF] (read_text (csv_bytes [header, map csv_str entry1])) =
      ''timestamp,origin,destination,distance_km,aircraft,rf,saf_pct,co2_kg,fuel_liters,trees,offset_inr''
      @ [LF] @ ''2026-01-05T09:30:00+00:00,DEL,BOM,1000.0,A320,False,0,165.0,65.3,7.5,99.0'' @ [LF]"
    by (simp add: csv_eval header_def entry1_def)
  note r' = r [unfolded b]
  have t: "''out.csv'' \<noteq> HISTORY_CSV"
    by (simp add: HISTORY_CSV_def)
  have n: "history_csv app0 = None"
    by (simp add: app0_def)
  show ?thesis
    by (simp add: log_history_row_None export_history_def t n b r' del: append.simps)
qed

end
